theory Spec2Isabelle
  imports Main "HOL-Library.Sublist"
begin

section \<open>The precedence table of grammar.js\<close>

text \<open>
  The object \<open>PREC\<close> of grammar.js (lines 27 to 50), entry by entry and in the
  order of the source: a name and its numeric level.  A higher level binds tighter.
\<close>

definition PREC :: "(string \<times> int) list" where
  "PREC =
    [(''POSTFIX'', 16),
     (''PREFIX'', 15),
     (''TYPE_RHS'', 14),
     (''AS'', 13),
     (''MULTIPLICATIVE'', 12),
     (''ADDITIVE'', 11),
     (''RANGE'', 10),
     (''INFIX'', 9),
     (''ELVIS'', 8),
     (''CHECK'', 7),
     (''COMPARISON'', 6),
     (''EQUALITY'', 5),
     (''CONJUNCTION'', 4),
     (''DISJUNCTION'', 3),
     (''SPREAD'', 2),
     (''SIMPLE_USER_TYPE'', 2),
     (''VAR_DECL'', 1),
     (''ASSIGNMENT'', 1),
     (''BLOCK'', 1),
     (''LAMBDA_LITERAL'', 0),
     (''RETURN_OR_THROW'', 0),
     (''COMMENT'', 0)]"

definition prec_of :: "string \<Rightarrow> int" where
  "prec_of n = (case map_of PREC n of Some v \<Rightarrow> v | None \<Rightarrow> 0)"

text \<open>The distinct levels of the table, in the order of their first occurrence.\<close>

definition prec_levels :: "int list" where
  "prec_levels = remdups (map snd PREC)"

text \<open>The names of the table grouped by level, tightest level first.\<close>

definition prec_groups :: "(int \<times> string list) list" where
  "prec_groups =
     map (\<lambda>l. (l, map fst (filter (\<lambda>e. snd e = l) PREC))) (rev (sort prec_levels))"

section \<open>Regular expressions of the lexical grammar\<close>

text \<open>
  The JavaScript regular expressions of grammar.js use character classes, negated
  classes, the dot, concatenation, alternation and the postfix operators
  \<open>*\<close>, \<open>+\<close> and \<open>{4}\<close>.  A class is kept as the list of its characters.
\<close>

datatype regex =
    Eps
  | One "char list"
  | NotOne "char list"
  | RSeq regex regex
  | RAlt regex regex
  | RStar regex

definition RPlus :: "regex \<Rightarrow> regex" where
  "RPlus a = RSeq a (RStar a)"

definition ROpt :: "regex \<Rightarrow> regex" where
  "ROpt a = RAlt a Eps"

text \<open>
  \<open>mlen r s\<close> lists the lengths of the prefixes of \<open>s\<close> that \<open>r\<close> matches.
  An iteration only continues after a non-empty match.
\<close>

function mlen :: "regex \<Rightarrow> string \<Rightarrow> nat list" where
  "mlen Eps s = [0]"
| "mlen (One cs) s = (case s of [] \<Rightarrow> [] | c # t \<Rightarrow> if c \<in> set cs then [1] else [])"
| "mlen (NotOne cs) s = (case s of [] \<Rightarrow> [] | c # t \<Rightarrow> if c \<in> set cs then [] else [1])"
| "mlen (RSeq a b) s = concat (map (\<lambda>n. map (\<lambda>m. n + m) (mlen b (drop n s))) (mlen a s))"
| "mlen (RAlt a b) s = mlen a s @ mlen b s"
| "mlen (RStar a) s =
     0 # concat (map (\<lambda>n. map (\<lambda>m. n + m) (mlen (RStar a) (drop n s)))
                     (filter (\<lambda>n. 0 < n \<and> n \<le> length s) (mlen a s)))"
  by pat_completeness auto
termination
  by (relation "measures [\<lambda>(r, s). length s, \<lambda>(r, s). size r]") auto

declare mlen.simps(6) [simp del]

text \<open>
  Whether a regular expression matches the empty string, and the characters that a
  non-empty match can start with.
\<close>

fun nullable :: "regex \<Rightarrow> bool" where
  "nullable Eps = True"
| "nullable (One cs) = False"
| "nullable (NotOne cs) = False"
| "nullable (RSeq a b) = (nullable a \<and> nullable b)"
| "nullable (RAlt a b) = (nullable a \<or> nullable b)"
| "nullable (RStar a) = True"

fun starts :: "regex \<Rightarrow> char \<Rightarrow> bool" where
  "starts Eps c = False"
| "starts (One cs) c = (c \<in> set cs)"
| "starts (NotOne cs) c = (c \<notin> set cs)"
| "starts (RSeq a b) c = (starts a c \<or> (nullable a \<and> starts b c))"
| "starts (RAlt a b) c = (starts a c \<or> starts b c)"
| "starts (RStar a) c = starts a c"

text \<open>A regular expression matches a whole string, and the longest prefix it matches.\<close>

definition rmatch :: "regex \<Rightarrow> string \<Rightarrow> bool" where
  "rmatch r s = (length s \<in> set (mlen r s))"

definition longest :: "regex \<Rightarrow> string \<Rightarrow> nat option" where
  "longest r s = (case mlen r s of [] \<Rightarrow> None | n # ns \<Rightarrow> Some (fold max ns n))"

fun RTimes :: "nat \<Rightarrow> regex \<Rightarrow> regex" where
  "RTimes 0 r = Eps"
| "RTimes (Suc n) r = RSeq r (RTimes n r)"

text \<open>The character ranges that the classes of grammar.js are built from.\<close>

definition digit :: "char list" where
  "digit = ''0123456789''"

definition nonzero_digit :: "char list" where
  "nonzero_digit = ''123456789''"

definition lower :: "char list" where
  "lower = ''abcdefghijklmnopqrstuvwxyz''"

definition upper :: "char list" where
  "upper = ''ABCDEFGHIJKLMNOPQRSTUVWXYZ''"

text \<open>The dot excludes the line terminators; \<open>\s\<close> is the white space of the byte range.\<close>

definition line_terminators :: "char list" where
  "line_terminators = [CHR 0x0A, CHR 0x0D]"

definition whitespace :: "char list" where
  "whitespace = [CHR 0x20, CHR 0x09, CHR 0x0A, CHR 0x0B, CHR 0x0C, CHR 0x0D]"

section \<open>The grammar combinators\<close>

text \<open>
  The rule builders that grammar.js calls: \<open>blank\<close>, string and pattern
  terminals, \<open>$.name\<close>, \<open>seq\<close>, \<open>choice\<close>, \<open>repeat\<close>, \<open>repeat1\<close>,
  \<open>field\<close>, \<open>alias\<close>, \<open>token\<close> and the four \<open>prec\<close> forms.
\<close>

datatype pkind = PNone | PLeft | PRight | PDynamic

datatype rule =
    Blank
  | Str string
  | Pat regex
  | Sym string
  | Seq "rule list"
  | Choice "rule list"
  | Repeat rule
  | Repeat1 rule
  | Field string rule
  | Alias rule string
  | Token rule
  | Prec pkind int rule

text \<open>\<open>optional(r)\<close> is \<open>choice(r, blank())\<close>.\<close>

definition optional :: "rule \<Rightarrow> rule" where
  "optional r = Choice [r, Blank]"

text \<open>The two helper functions at the end of grammar.js (lines 1369 to 1375).\<close>

definition sep1 :: "rule \<Rightarrow> rule \<Rightarrow> rule" where
  "sep1 r separator = Seq [r, Repeat (Seq [separator, r])]"

definition optional_with_placeholder :: "string \<Rightarrow> rule \<Rightarrow> rule" where
  "optional_with_placeholder field_name r =
     Choice [Field field_name r, Field field_name Blank]"

text \<open>The token constants (lines 51 to 54).\<close>

definition DEC_DIGITS :: rule where
  "DEC_DIGITS = Token (sep1 (Pat (RPlus (One digit))) (Pat (RPlus (One ''_''))))"

definition HEX_DIGITS :: rule where
  "HEX_DIGITS =
     Token (sep1 (Pat (RPlus (One (digit @ ''abcdef'' @ ''ABCDEF'')))) (Pat (RPlus (One ''_''))))"

definition BIN_DIGITS :: rule where
  "BIN_DIGITS = Token (sep1 (Pat (One ''01'')) (Pat (RPlus (One ''_''))))"

definition REAL_EXPONENT :: rule where
  "REAL_EXPONENT = Token (Seq [Pat (One ''eE''), optional (Pat (One ''+-'')), DEC_DIGITS])"

section \<open>The rules of the grammar\<close>

text \<open>
  Every rule of the \<open>rules\<close> object as a constant of its own, in the order of
  the source: the rule \<open>name\<close> is the constant \<open>name_rule\<close>, and a leading
  underscore of the name is written \<open>h_\<close>.  The table \<open>grammar\<close> maps the
  names of the source to the rules.
\<close>

subsection \<open>General\<close>

definition program_rule :: rule where
  "program_rule =
     Seq
     [optional (Sym ''shebang_line''),
      Repeat (Sym ''file_annotation''),
      optional (Sym ''package_header''),
      optional_with_placeholder ''import_list'' (Repeat (Sym ''import'')),
      optional_with_placeholder ''statement_list'' (Repeat (Sym ''statement''))]"

definition statement_rule :: rule where
  "statement_rule = Seq [Sym ''statement_'', Sym ''_semi'']"

definition shebang_line_rule :: rule where
  "shebang_line_rule = Seq [Str ''#!'', Pat (RStar (NotOne [CHR 0x0D, CHR 0x0A]))]"

definition file_annotation_rule :: rule where
  "file_annotation_rule =
     Seq
     [Str ''@'',
      Str ''file'',
      Str '':'',
      Choice
       [Seq [Str ''['', Repeat1 (Sym ''_unescaped_annotation''), Str '']''],
        Sym ''_unescaped_annotation''],
      Sym ''_semi'']"

definition package_header_rule :: rule where
  "package_header_rule = Seq [Str ''package'', Sym ''identifier'', Sym ''_semi'']"

definition import_rule :: rule where
  "import_rule =
     Seq
     [Str ''import'',
      Sym ''identifier'',
      optional (Choice [Seq [Str ''.*''], Sym ''import_alias'']),
      Sym ''_semi'']"

definition import_alias_rule :: rule where
  "import_alias_rule =
     Seq [Str ''as'', Alias (Sym ''simple_identifier'') ''type_identifier'']"

definition top_level_object_rule :: rule where
  "top_level_object_rule = Seq [Sym ''declaration_'', optional (Sym ''_semis'')]"

definition type_alias_rule :: rule where
  "type_alias_rule =
     Seq
     [optional (Sym ''modifiers''),
      Str ''typealias'',
      Alias (Sym ''simple_identifier'') ''type_identifier'',
      Str ''='',
      Sym ''_type'']"

definition declaration__rule :: rule where
  "declaration__rule =
     Choice
     [Sym ''class_declaration'',
      Sym ''object_declaration'',
      Sym ''function'',
      Sym ''property'',
      Sym ''getter'',
      Sym ''setter'',
      Sym ''type_alias'']"

subsection \<open>Classes\<close>

definition class_declaration_rule :: rule where
  "class_declaration_rule =
     Prec PRight 0
      (Choice
        [Seq
          [optional (Sym ''modifiers''),
           Choice [Str ''class'', Str ''interface''],
           Alias (Sym ''simple_identifier'') ''identifier'',
           optional (Sym ''type_parameters''),
           optional (Sym ''primary_constructor''),
           optional_with_placeholder ''implements_list_optional''
             (Seq [Str '':'', Alias (Sym ''delegation_specifiers_'') ''implements_list'']),
           optional (Sym ''type_constraints''),
           optional (Sym ''class_body'')],
         Seq
          [optional (Sym ''modifiers''),
           Str ''enum'',
           Str ''class'',
           Alias (Sym ''simple_identifier'') ''identifier'',
           optional (Sym ''type_parameters''),
           optional (Sym ''primary_constructor''),
           optional_with_placeholder ''implements_list_optional''
             (Seq [Str '':'', Alias (Sym ''delegation_specifiers_'') ''implements_list'']),
           optional (Sym ''type_constraints''),
           optional (Sym ''enum_class_body'')]])"

definition primary_constructor_rule :: rule where
  "primary_constructor_rule =
     Seq
     [optional (Seq [optional (Sym ''modifiers''), Str ''constructor'']),
      Sym ''_class_parameters'']"

definition class_body_rule :: rule where
  "class_body_rule =
     Seq
     [Str ''{'',
      optional_with_placeholder ''class_member_list'' (Sym ''class_member_declarations_''),
      Str ''}'']"

definition h_class_parameters_rule :: rule where
  "h_class_parameters_rule =
     Seq
     [Str ''('',
      optional (sep1 (Sym ''class_parameter'') (Str '','')),
      optional (Str '',''),
      Str '')'']"

definition class_parameter_rule :: rule where
  "class_parameter_rule =
     Seq
     [optional (Sym ''modifiers''),
      optional (Choice [Str ''val'', Str ''var'']),
      Sym ''simple_identifier'',
      Str '':'',
      Sym ''_type'',
      optional (Seq [Str ''='', Sym ''expression_''])]"

definition delegation_specifiers__rule :: rule where
  "delegation_specifiers__rule =
     Prec PLeft 0
      (sep1 (Alias (Sym ''delegation_specifier'') ''implements_type'') (Str '',''))"

definition delegation_specifier_rule :: rule where
  "delegation_specifier_rule =
     Prec PLeft 0
      (Choice
        [Sym ''constructor_invocation'',
         Sym ''explicit_delegation'',
         Sym ''user_type'',
         Sym ''function_type''])"

definition constructor_invocation_rule :: rule where
  "constructor_invocation_rule = Seq [Sym ''user_type'', Sym ''value_arguments'']"

definition h_annotated_delegation_specifier_rule :: rule where
  "h_annotated_delegation_specifier_rule =
     Seq [Repeat (Sym ''annotation''), Sym ''delegation_specifier'']"

definition explicit_delegation_rule :: rule where
  "explicit_delegation_rule =
     Seq [Choice [Sym ''user_type'', Sym ''function_type''], Str ''by'', Sym ''expression_'']"

definition type_parameters_rule :: rule where
  "type_parameters_rule =
     Seq [Str ''<'', sep1 (Sym ''type_parameter'') (Str '',''), Str ''>'']"

definition type_parameter_rule :: rule where
  "type_parameter_rule =
     Seq
     [optional (Sym ''type_parameter_modifiers''),
      Alias (Sym ''simple_identifier'') ''type_identifier'',
      optional (Seq [Str '':'', Sym ''_type''])]"

definition type_constraints_rule :: rule where
  "type_constraints_rule =
     Prec PRight 0 (Seq [Str ''where'', sep1 (Sym ''type_constraint'') (Str '','')])"

definition type_constraint_rule :: rule where
  "type_constraint_rule =
     Seq
     [Repeat (Sym ''annotation''),
      Alias (Sym ''simple_identifier'') ''type_identifier'',
      Str '':'',
      Sym ''_type'']"

subsection \<open>Class members\<close>

definition class_member_declarations__rule :: rule where
  "class_member_declarations__rule =
     Repeat1 (Seq [Alias (Sym ''_class_member_declaration'') ''member'', Sym ''_semis''])"

definition h_class_member_declaration_rule :: rule where
  "h_class_member_declaration_rule =
     Choice
     [Sym ''declaration_'',
      Sym ''companion_object'',
      Sym ''anonymous_initializer'',
      Sym ''secondary_constructor'']"

definition anonymous_initializer_rule :: rule where
  "anonymous_initializer_rule = Seq [Str ''init'', Sym ''enclosed_body'']"

definition companion_object_rule :: rule where
  "companion_object_rule =
     Seq
     [optional (Sym ''modifiers''),
      Str ''companion'',
      Str ''object'',
      optional (Alias (Sym ''simple_identifier'') ''type_identifier''),
      optional (Seq [Str '':'', Sym ''delegation_specifiers_'']),
      optional (Sym ''class_body'')]"

definition function_value_parameters__rule :: rule where
  "function_value_parameters__rule =
     Seq
     [Str ''('',
      optional_with_placeholder ''parameter_list''
        (Seq
          [optional
             (sep1 (Alias (Sym ''function_value_parameter_'') ''parameter'') (Str '','')),
           optional (Str '','')]),
      Str '')'']"

definition function_value_parameter__rule :: rule where
  "function_value_parameter__rule =
     Seq
     [optional (Sym ''parameter_modifiers''),
      Sym ''parameter_'',
      optional (Seq [Str ''='', Sym ''expression_''])]"

definition receiver_type__rule :: rule where
  "receiver_type__rule =
     Seq
     [optional (Sym ''type_modifiers''),
      Choice [Sym ''type_reference_'', Sym ''parenthesized_type'', Sym ''nullable_type'']]"

definition function_rule :: rule where
  "function_rule =
     Prec PRight 0
      (Seq
        [optional (Sym ''modifiers''),
         Str ''fun'',
         optional (Sym ''type_parameters''),
         optional (Seq [Sym ''receiver_type_'', optional (Str ''.'')]),
         Field ''identifier'' (Sym ''simple_identifier''),
         Sym ''function_value_parameters_'',
         optional_with_placeholder ''type_optional''
           (Seq [Str '':'', Alias (Sym ''_type'') ''type'']),
         optional (Sym ''type_constraints''),
         optional (Sym ''function_body'')])"

definition function_body_rule :: rule where
  "function_body_rule =
     Choice [Sym ''enclosed_body'', Seq [Str ''='', Sym ''expression_'']]"

definition single_variable_declaration_rule :: rule where
  "single_variable_declaration_rule =
     Prec PLeft (prec_of ''VAR_DECL'')
      (Seq
        [Field ''identifier'' (Sym ''simple_identifier''),
         optional_with_placeholder ''type_optional''
           (Seq [Str '':'', Alias (Sym ''_type'') ''type''])])"

definition variable_declaration_rule :: rule where
  "variable_declaration_rule = Alias (Sym ''property_assignment'') ''assignment''"

definition property_assignment_rule :: rule where
  "property_assignment_rule =
     Seq
     [Choice
       [Alias (Sym ''single_variable_declaration'') ''assignment_variable'',
        Sym ''multi_variable_declaration''],
      optional (Sym ''type_constraints''),
      optional_with_placeholder ''assignment_value_list_optional''
        (Alias (Sym ''property_assignment_value'') ''assignment_value'')]"

definition property_assignment_value_rule :: rule where
  "property_assignment_value_rule =
     Choice [Seq [Str ''='', Sym ''expression_''], Sym ''property_delegate'']"

definition property_rule :: rule where
  "property_rule =
     Prec PRight 0
      (Seq
        [optional (Sym ''modifiers''),
         Choice [Str ''val'', Str ''var''],
         optional (Sym ''type_parameters''),
         optional (Seq [Sym ''receiver_type_'', optional (Str ''.'')]),
         Sym ''variable_declaration'',
         optional (Str '';''),
         Choice [optional (Sym ''getter''), optional (Sym ''setter'')]])"

definition property_delegate_rule :: rule where
  "property_delegate_rule = Seq [Str ''by'', Sym ''expression_'']"

definition getter_rule :: rule where
  "getter_rule =
     Prec PRight 0
      (Seq
        [optional (Sym ''modifiers''),
         Str ''get'',
         optional
           (Seq
             [Str ''('',
              Str '')'',
              optional (Seq [Str '':'', Sym ''_type'']),
              Sym ''function_body''])])"

definition setter_rule :: rule where
  "setter_rule =
     Prec PRight 0
      (Seq
        [optional (Sym ''modifiers''),
         Str ''set'',
         optional
           (Seq
             [Str ''('',
              Sym ''parameter_with_optional_type'',
              Str '')'',
              optional (Seq [Str '':'', Sym ''_type'']),
              Sym ''function_body''])])"

definition parameters_with_optional_type_rule :: rule where
  "parameters_with_optional_type_rule =
     Seq [Str ''('', sep1 (Sym ''parameter_with_optional_type'') (Str '',''), Str '')'']"

definition parameter_with_optional_type_rule :: rule where
  "parameter_with_optional_type_rule =
     Seq
     [optional (Sym ''parameter_modifiers''),
      Sym ''simple_identifier'',
      optional (Seq [Str '':'', Sym ''_type''])]"

definition parameter__rule :: rule where
  "parameter__rule =
     Seq
     [Field ''identifier'' (Sym ''simple_identifier''),
      Field ''type_optional'' (Seq [Str '':'', Alias (Sym ''_type'') ''type''])]"

definition object_declaration_rule :: rule where
  "object_declaration_rule =
     Prec PRight 0
      (Seq
        [optional (Sym ''modifiers''),
         Str ''object'',
         Alias (Sym ''simple_identifier'') ''type_identifier'',
         optional (Seq [Str '':'', Sym ''delegation_specifiers_'']),
         optional (Sym ''class_body'')])"

definition secondary_constructor_rule :: rule where
  "secondary_constructor_rule =
     Seq
     [optional (Sym ''modifiers''),
      Str ''constructor'',
      Sym ''function_value_parameters_'',
      optional (Seq [Str '':'', Sym ''constructor_delegation_call'']),
      optional (Sym ''enclosed_body'')]"

definition constructor_delegation_call_rule :: rule where
  "constructor_delegation_call_rule =
     Seq [Choice [Str ''this'', Str ''super''], Sym ''value_arguments'']"

subsection \<open>Enum classes\<close>

definition enum_class_body_rule :: rule where
  "enum_class_body_rule =
     Seq
     [Str ''{'',
      optional_with_placeholder ''enum_member_list''
        (Seq
          [optional (Sym ''_enum_entries''),
           optional (Seq [Str '';'', optional (Sym ''class_member_declarations_'')])]),
      Str ''}'']"

definition h_enum_entries_rule :: rule where
  "h_enum_entries_rule =
     Seq [sep1 (Sym ''enum_entry'') (Str '',''), optional (Str '','')]"

definition enum_entry_rule :: rule where
  "enum_entry_rule =
     Seq
     [optional (Sym ''modifiers''),
      Sym ''simple_identifier'',
      optional (Sym ''value_arguments''),
      optional (Sym ''class_body'')]"

subsection \<open>Types\<close>

definition h_type_rule :: rule where
  "h_type_rule =
     Seq
     [optional (Sym ''type_modifiers''),
      Choice
       [Sym ''parenthesized_type'',
        Sym ''nullable_type'',
        Sym ''type_reference_'',
        Sym ''function_type'']]"

definition type_reference__rule :: rule where
  "type_reference__rule = Choice [Sym ''user_type'', Str ''dynamic'']"

definition nullable_type_rule :: rule where
  "nullable_type_rule =
     Seq
     [Choice [Sym ''type_reference_'', Sym ''parenthesized_type''],
      Repeat1 (Sym ''_quest'')]"

definition h_quest_rule :: rule where
  "h_quest_rule = Str ''?''"

definition user_type_rule :: rule where
  "user_type_rule = sep1 (Sym ''_simple_user_type'') (Str ''.'')"

definition h_simple_user_type_rule :: rule where
  "h_simple_user_type_rule =
     Prec PRight (prec_of ''SIMPLE_USER_TYPE'')
      (Seq
        [Alias (Sym ''simple_identifier'') ''type_identifier'',
         optional (Sym ''type_arguments'')])"

definition type_projection_rule :: rule where
  "type_projection_rule =
     Choice [Seq [optional (Sym ''type_projection_modifiers''), Sym ''_type''], Str ''*'']"

definition type_projection_modifiers_rule :: rule where
  "type_projection_modifiers_rule = Repeat1 (Sym ''_type_projection_modifier'')"

definition h_type_projection_modifier_rule :: rule where
  "h_type_projection_modifier_rule = Sym ''variance_modifier''"

definition function_type_rule :: rule where
  "function_type_rule =
     Seq
     [optional (Seq [Sym ''_simple_user_type'', Str ''.'']),
      Sym ''function_type_parameters'',
      Str ''->'',
      Sym ''_type'']"

definition function_type_parameters_rule :: rule where
  "function_type_parameters_rule =
     Prec PLeft 1
      (Seq
        [Str ''('',
         optional (sep1 (Choice [Sym ''parameter_'', Sym ''_type'']) (Str '','')),
         Str '')''])"

definition parenthesized_type_rule :: rule where
  "parenthesized_type_rule = Seq [Str ''('', Sym ''_type'', Str '')'']"

definition parenthesized_user_type_rule :: rule where
  "parenthesized_user_type_rule =
     Seq [Str ''('', Choice [Sym ''user_type'', Sym ''parenthesized_user_type''], Str '')'']"

subsection \<open>Statements\<close>

definition statements_rule :: rule where
  "statements_rule =
     Seq
     [Sym ''statement_'',
      Repeat (Seq [Sym ''_semis'', Sym ''statement_'']),
      optional (Sym ''_semis'')]"

definition statement__rule :: rule where
  "statement__rule =
     Field ''statement''
      (Choice
        [Sym ''declaration_'',
         Seq
          [Repeat (Choice [Sym ''label'', Sym ''annotation'']),
           Choice [Sym ''assignment'', Sym ''loop_statement_'', Sym ''expression_'']]])"

definition label_rule :: rule where
  "label_rule =
     Token
      (Seq
        [Pat (RSeq (One (lower @ upper @ ''_'')) (RStar (One (lower @ upper @ ''_'' @ digit)))),
         Str ''@''])"

definition control_structure_body_rule :: rule where
  "control_structure_body_rule =
     Choice [Sym ''enclosed_body'', Alias (Sym ''statement_'') ''statement'']"

definition enclosed_body_rule :: rule where
  "enclosed_body_rule =
     Prec PNone (prec_of ''BLOCK'')
      (Seq
        [Str ''{'',
         optional_with_placeholder ''statement_list'' (Sym ''statements''),
         Str ''}''])"

definition loop_statement__rule :: rule where
  "loop_statement__rule = Choice [Sym ''for'', Sym ''while'', Sym ''do_while_statement'']"

definition for_rule :: rule where
  "for_rule = Sym ''for_each_clause''"

definition for_each_clause_rule :: rule where
  "for_each_clause_rule =
     Prec PRight 0
      (Seq
        [Str ''for'',
         Str ''('',
         Field ''block_iterator''
           (Seq
             [Repeat (Sym ''annotation''),
              Choice
               [Sym ''single_variable_declaration'',
                Sym ''multi_variable_declaration'']]),
         Field ''for_each_separator'' (Str ''in''),
         Field ''block_collection'' (Sym ''expression_''),
         Str '')'',
         optional (Sym ''control_structure_body'')])"

definition while_rule :: rule where
  "while_rule = Sym ''while_clause''"

definition while_clause_rule :: rule where
  "while_clause_rule =
     Seq
     [Str ''while'',
      Str ''('',
      Alias (Sym ''expression_'') ''condition'',
      Str '')'',
      Choice [Str '';'', Sym ''control_structure_body'']]"

definition do_while_statement_rule :: rule where
  "do_while_statement_rule =
     Prec PRight 0
      (Seq
        [Str ''do'',
         optional (Sym ''control_structure_body''),
         Str ''while'',
         Str ''('',
         Sym ''expression_'',
         Str '')''])"

definition h_semi_rule :: rule where
  "h_semi_rule = Choice [Sym ''_automatic_semicolon'', Str '';'']"

definition h_semis_rule :: rule where
  "h_semis_rule = Choice [Sym ''_automatic_semicolon'', Str '';'']"

definition assignment_rule :: rule where
  "assignment_rule =
     Choice
     [Prec PLeft (prec_of ''ASSIGNMENT'')
        (Seq
          [Sym ''directly_assignable_expression'',
           Sym ''_assignment_and_operator'',
           Sym ''assignment_value'']),
      Prec PLeft (prec_of ''ASSIGNMENT'')
        (Seq [Sym ''directly_assignable_expression'', Str ''='', Sym ''assignment_value''])]"

definition assignment_value_rule :: rule where
  "assignment_value_rule = Sym ''expression_''"

subsection \<open>Expressions\<close>

definition expression__rule :: rule where
  "expression__rule =
     Choice
     [Sym ''primary_expression_'',
      Sym ''_unary_expression'',
      Sym ''_binary_expression'']"

definition h_unary_expression_rule :: rule where
  "h_unary_expression_rule =
     Choice
     [Sym ''postfix_expression'',
      Sym ''call'',
      Sym ''indexing_expression'',
      Sym ''navigation_expression'',
      Sym ''prefix_expression'',
      Sym ''as_expression'',
      Sym ''spread_expression'']"

definition postfix_expression_rule :: rule where
  "postfix_expression_rule =
     Prec PLeft (prec_of ''POSTFIX'')
      (Seq [Sym ''expression_'', Sym ''_postfix_unary_operator''])"

definition call_rule :: rule where
  "call_rule =
     Prec PLeft (prec_of ''POSTFIX'') (Seq [Sym ''expression_'', Sym ''call_suffix''])"

definition indexing_expression_rule :: rule where
  "indexing_expression_rule =
     Prec PLeft (prec_of ''POSTFIX'') (Seq [Sym ''expression_'', Sym ''indexing_suffix''])"

definition navigation_expression_rule :: rule where
  "navigation_expression_rule =
     Prec PLeft (prec_of ''POSTFIX'') (Seq [Sym ''expression_'', Sym ''navigation_suffix''])"

definition prefix_expression_rule :: rule where
  "prefix_expression_rule =
     Prec PRight 0
      (Seq
        [Choice [Sym ''annotation'', Sym ''label'', Sym ''_prefix_unary_operator''],
         Sym ''expression_''])"

definition as_expression_rule :: rule where
  "as_expression_rule =
     Prec PLeft (prec_of ''AS'')
      (Seq [Sym ''expression_'', Sym ''_as_operator'', Sym ''_type''])"

definition spread_expression_rule :: rule where
  "spread_expression_rule =
     Prec PLeft (prec_of ''SPREAD'') (Seq [Str ''*'', Sym ''expression_''])"

definition h_binary_expression_rule :: rule where
  "h_binary_expression_rule =
     Choice
     [Sym ''multiplicative_expression'',
      Sym ''additive_expression'',
      Sym ''range_expression'',
      Sym ''infix_expression'',
      Sym ''elvis_expression'',
      Sym ''check_expression'',
      Sym ''comparison_expression'',
      Sym ''equality_expression'',
      Sym ''comparison_expression'',
      Sym ''equality_expression'',
      Sym ''conjunction_expression'',
      Sym ''disjunction_expression'']"

definition multiplicative_expression_rule :: rule where
  "multiplicative_expression_rule =
     Prec PLeft (prec_of ''MULTIPLICATIVE'')
      (Seq [Sym ''expression_'', Sym ''_multiplicative_operator'', Sym ''expression_''])"

definition additive_expression_rule :: rule where
  "additive_expression_rule =
     Prec PLeft (prec_of ''ADDITIVE'')
      (Seq [Sym ''expression_'', Sym ''_additive_operator'', Sym ''expression_''])"

definition range_expression_rule :: rule where
  "range_expression_rule =
     Prec PLeft (prec_of ''RANGE'')
      (Seq [Sym ''expression_'', Str ''..'', Sym ''expression_''])"

definition infix_expression_rule :: rule where
  "infix_expression_rule =
     Prec PLeft (prec_of ''INFIX'')
      (Seq [Sym ''expression_'', Sym ''simple_identifier'', Sym ''expression_''])"

definition elvis_expression_rule :: rule where
  "elvis_expression_rule =
     Prec PLeft (prec_of ''ELVIS'')
      (Seq [Sym ''expression_'', Str ''?:'', Sym ''expression_''])"

definition check_expression_rule :: rule where
  "check_expression_rule =
     Prec PLeft (prec_of ''CHECK'')
      (Seq
        [Sym ''expression_'',
         Choice
          [Seq [Sym ''_in_operator'', Sym ''expression_''],
           Seq [Sym ''_is_operator'', Sym ''_type'']]])"

definition comparison_expression_rule :: rule where
  "comparison_expression_rule =
     Prec PLeft (prec_of ''COMPARISON'')
      (Seq [Sym ''expression_'', Sym ''_comparison_operator'', Sym ''expression_''])"

definition equality_expression_rule :: rule where
  "equality_expression_rule =
     Prec PLeft (prec_of ''EQUALITY'')
      (Seq [Sym ''expression_'', Sym ''_equality_operator'', Sym ''expression_''])"

definition conjunction_expression_rule :: rule where
  "conjunction_expression_rule =
     Prec PLeft (prec_of ''CONJUNCTION'')
      (Seq [Sym ''expression_'', Str ''&&'', Sym ''expression_''])"

definition disjunction_expression_rule :: rule where
  "disjunction_expression_rule =
     Prec PLeft (prec_of ''DISJUNCTION'')
      (Seq [Sym ''expression_'', Str ''||'', Sym ''expression_''])"

definition indexing_suffix_rule :: rule where
  "indexing_suffix_rule =
     Seq [Str ''['', sep1 (Sym ''expression_'') (Str '',''), Str '']'']"

definition navigation_suffix_rule :: rule where
  "navigation_suffix_rule =
     Seq
     [Sym ''_member_access_operator'',
      Choice [Sym ''simple_identifier'', Sym ''parenthesized_expression'', Str ''class'']]"

definition call_suffix_rule :: rule where
  "call_suffix_rule =
     Prec PLeft 0
      (Seq
        [optional (Sym ''type_arguments''),
         Choice
          [Seq [optional (Sym ''value_arguments''), Sym ''annotated_lambda''],
           Sym ''value_arguments'']])"

definition annotated_lambda_rule :: rule where
  "annotated_lambda_rule =
     Seq [Repeat (Sym ''annotation''), optional (Sym ''label''), Sym ''lambda_literal'']"

definition type_arguments_rule :: rule where
  "type_arguments_rule =
     Seq [Str ''<'', sep1 (Sym ''type_projection'') (Str '',''), Str ''>'']"

definition value_arguments_rule :: rule where
  "value_arguments_rule =
     Seq
     [Str ''('',
      optional_with_placeholder ''argument_list''
        (sep1 (Alias (Sym ''value_argument'') ''argument'') (Str '','')),
      Str '')'']"

definition value_argument_rule :: rule where
  "value_argument_rule =
     Seq
     [optional (Sym ''annotation''),
      optional (Seq [Field ''identifier'' (Sym ''simple_identifier''), Str ''='']),
      optional (Str ''*''),
      Sym ''expression_'']"

definition primary_expression__rule :: rule where
  "primary_expression__rule =
     Choice
     [Sym ''parenthesized_expression'',
      Sym ''simple_identifier'',
      Sym ''_literal_constant'',
      Sym ''string_literal'',
      Sym ''callable_reference'',
      Sym ''_function_literal'',
      Sym ''object_literal'',
      Sym ''collection_literal'',
      Sym ''this_expression'',
      Sym ''super_expression'',
      Sym ''if'',
      Sym ''when_expression'',
      Sym ''try'',
      Sym ''jump_expression'']"

definition parenthesized_expression_rule :: rule where
  "parenthesized_expression_rule = Seq [Str ''('', Sym ''expression_'', Str '')'']"

definition collection_literal_rule :: rule where
  "collection_literal_rule =
     Seq
     [Str ''['',
      Sym ''expression_'',
      Repeat (Seq [Str '','', Sym ''expression_'']),
      Str '']'']"

definition h_literal_constant_rule :: rule where
  "h_literal_constant_rule =
     Choice
     [Sym ''boolean_literal'',
      Sym ''integer_literal'',
      Sym ''hex_literal'',
      Sym ''bin_literal'',
      Sym ''character_literal'',
      Sym ''real_literal'',
      Str ''null'',
      Sym ''long_literal'',
      Sym ''unsigned_literal'']"

definition string_literal_rule :: rule where
  "string_literal_rule =
     Choice [Sym ''line_string_literal'', Sym ''multi_line_string_literal'']"

definition line_string_literal_rule :: rule where
  "line_string_literal_rule =
     Seq
     [Str [CHR 0x22],
      Repeat (Choice [Sym ''line_string_content_'', Sym ''interpolation_'']),
      Str [CHR 0x22]]"

definition multi_line_string_literal_rule :: rule where
  "multi_line_string_literal_rule =
     Seq
     [Str [CHR 0x22, CHR 0x22, CHR 0x22],
      Repeat (Choice [Sym ''_multi_line_string_content'', Sym ''interpolation_'']),
      Str [CHR 0x22, CHR 0x22, CHR 0x22]]"

definition line_string_content__rule :: rule where
  "line_string_content__rule =
     Choice [Sym ''_line_str_text'', Sym ''_line_str_escaped_char'']"

definition line_string_expression_rule :: rule where
  "line_string_expression_rule = Seq [Str ''${'', Sym ''expression_'', Str ''}'']"

definition h_multi_line_string_content_rule :: rule where
  "h_multi_line_string_content_rule =
     Choice [Sym ''_multi_line_str_text'', Str [CHR 0x22]]"

definition interpolation__rule :: rule where
  "interpolation__rule =
     Choice
     [Seq [Str ''${'', Alias (Sym ''expression_'') ''interpolated_expression'', Str ''}''],
      Seq [Str ''$'', Alias (Sym ''simple_identifier'') ''interpolated_identifier'']]"

definition lambda_literal_rule :: rule where
  "lambda_literal_rule =
     Prec PNone (prec_of ''LAMBDA_LITERAL'')
      (Seq
        [Str ''{'',
         optional (Seq [optional (Sym ''lambda_parameters''), Str ''->'']),
         optional (Sym ''statements''),
         Str ''}''])"

definition multi_variable_declaration_rule :: rule where
  "multi_variable_declaration_rule =
     Seq
     [Str ''('',
      Field ''assignment_variable_list''
        (sep1
           (Alias (Sym ''single_variable_declaration'') ''assignment_variable'') (Str '','')),
      Str '')'']"

definition lambda_parameters_rule :: rule where
  "lambda_parameters_rule = sep1 (Sym ''_lambda_parameter'') (Str '','')"

definition h_lambda_parameter_rule :: rule where
  "h_lambda_parameter_rule =
     Choice [Sym ''single_variable_declaration'', Sym ''multi_variable_declaration'']"

definition anonymous_function_rule :: rule where
  "anonymous_function_rule =
     Seq
     [Str ''fun'',
      optional (Seq [sep1 (Sym ''_simple_user_type'') (Str ''.''), Str ''.'']),
      Str ''('',
      Str '')'',
      optional (Sym ''function_body'')]"

definition h_function_literal_rule :: rule where
  "h_function_literal_rule = Choice [Sym ''lambda_literal'', Sym ''anonymous_function'']"

definition object_literal_rule :: rule where
  "object_literal_rule =
     Seq
     [Str ''object'',
      optional (Seq [Str '':'', Sym ''delegation_specifiers_'']),
      Sym ''class_body'']"

definition this_expression_rule :: rule where
  "this_expression_rule = Str ''this''"

definition super_expression_rule :: rule where
  "super_expression_rule = Seq [Str ''super'']"

definition if_rule :: rule where
  "if_rule =
     Seq
     [Sym ''if_clause'',
      optional_with_placeholder ''else_if_clause_list'' (Repeat (Sym ''else_if_clause'')),
      optional_with_placeholder ''else_clause_optional'' (Sym ''else_clause'')]"

definition if_clause_rule :: rule where
  "if_clause_rule =
     Seq
     [Str ''if'',
      Str ''('',
      Field ''condition'' (Sym ''expression_''),
      Str '')'',
      Choice [Sym ''control_structure_body'', Str '';'']]"

definition else_if_clause_rule :: rule where
  "else_if_clause_rule =
     Prec PDynamic 1
      (Seq
        [Str ''else'',
         Str ''if'',
         Str ''('',
         Field ''condition'' (Sym ''expression_''),
         Str '')'',
         Choice [Sym ''control_structure_body'', Str '';'']])"

definition else_clause_rule :: rule where
  "else_clause_rule =
     Seq [Str ''else'', Choice [Sym ''control_structure_body'', Str '';'']]"

definition when_subject_rule :: rule where
  "when_subject_rule =
     Seq
     [Str ''('',
      optional
        (Seq
          [Repeat (Sym ''annotation''),
           Str ''val'',
           Sym ''single_variable_declaration'',
           Str ''='']),
      Sym ''expression_'',
      Str '')'']"

definition when_expression_rule :: rule where
  "when_expression_rule =
     Seq
     [Str ''when'',
      optional (Sym ''when_subject''),
      Str ''{'',
      Repeat (Sym ''when_entry''),
      Str ''}'']"

definition when_entry_rule :: rule where
  "when_entry_rule =
     Seq
     [Choice
       [Seq [Sym ''when_condition'', Repeat (Seq [Str '','', Sym ''when_condition''])],
        Str ''else''],
      Str ''->'',
      Sym ''control_structure_body'',
      optional (Sym ''_semi'')]"

definition when_condition_rule :: rule where
  "when_condition_rule =
     Choice [Sym ''expression_'', Sym ''range_test'', Sym ''type_test'']"

definition range_test_rule :: rule where
  "range_test_rule = Seq [Sym ''_in_operator'', Sym ''expression_'']"

definition type_test_rule :: rule where
  "type_test_rule = Seq [Sym ''_is_operator'', Sym ''_type'']"

definition try_rule :: rule where
  "try_rule =
     Seq
     [Sym ''try_clause'',
      optional_with_placeholder ''catch_list'' (Repeat1 (Sym ''catch'')),
      optional_with_placeholder ''finally_clause_optional'' (Sym ''finally_clause'')]"

definition try_clause_rule :: rule where
  "try_clause_rule = Seq [Str ''try'', Sym ''enclosed_body'']"

definition catch_rule :: rule where
  "catch_rule =
     Seq
     [Str ''catch'',
      Str ''('',
      Repeat (Sym ''annotation''),
      Sym ''simple_identifier'',
      Str '':'',
      Sym ''_type'',
      Str '')'',
      Sym ''enclosed_body'']"

definition finally_clause_rule :: rule where
  "finally_clause_rule = Seq [Str ''finally'', Sym ''enclosed_body'']"

definition jump_expression_rule :: rule where
  "jump_expression_rule =
     Choice
     [Prec PRight (prec_of ''RETURN_OR_THROW'') (Sym ''throw''),
      Prec PRight (prec_of ''RETURN_OR_THROW'') (Sym ''return''),
      Str ''continue'',
      Sym ''_continue_at'',
      Str ''break'',
      Sym ''_break_at'']"

definition throw_rule :: rule where
  "throw_rule = Seq [Str ''throw'', Sym ''expression_'']"

definition return_rule :: rule where
  "return_rule =
     Seq
     [Choice [Str ''return'', Sym ''_return_at''],
      optional_with_placeholder ''return_value_optional''
        (Alias (Sym ''expression_'') ''return_value'')]"

definition callable_reference_rule :: rule where
  "callable_reference_rule =
     Seq
     [optional (Alias (Sym ''simple_identifier'') ''type_identifier''),
      Str ''::'',
      Choice [Sym ''simple_identifier'', Str ''class'']]"

definition h_assignment_and_operator_rule :: rule where
  "h_assignment_and_operator_rule =
     Choice [Str ''+='', Str ''-='', Str ''*='', Str ''/='', Str ''%='']"

definition h_equality_operator_rule :: rule where
  "h_equality_operator_rule = Choice [Str ''!='', Str ''!=='', Str ''=='', Str ''==='']"

definition h_comparison_operator_rule :: rule where
  "h_comparison_operator_rule = Choice [Str ''<'', Str ''>'', Str ''<='', Str ''>='']"

definition h_in_operator_rule :: rule where
  "h_in_operator_rule = Choice [Str ''in'', Str ''!in'']"

definition h_is_operator_rule :: rule where
  "h_is_operator_rule = Choice [Str ''is'', Sym ''_not_is'']"

definition h_additive_operator_rule :: rule where
  "h_additive_operator_rule = Choice [Str ''+'', Str ''-'']"

definition h_multiplicative_operator_rule :: rule where
  "h_multiplicative_operator_rule = Choice [Str ''*'', Str ''/'', Str ''%'']"

definition h_as_operator_rule :: rule where
  "h_as_operator_rule = Choice [Str ''as'', Str ''as?'']"

definition h_prefix_unary_operator_rule :: rule where
  "h_prefix_unary_operator_rule =
     Choice [Str ''++'', Str ''--'', Str ''-'', Str ''+'', Str ''!'']"

definition h_postfix_unary_operator_rule :: rule where
  "h_postfix_unary_operator_rule = Choice [Str ''++'', Str ''--'', Str ''!!'']"

definition h_member_access_operator_rule :: rule where
  "h_member_access_operator_rule = Choice [Str ''.'', Sym ''_safe_nav'', Str ''::'']"

definition h_safe_nav_rule :: rule where
  "h_safe_nav_rule = Str ''?.''"

definition h_indexing_suffix_rule :: rule where
  "h_indexing_suffix_rule =
     Seq
     [Str ''['',
      Sym ''expression_'',
      Repeat (Seq [Str '','', Sym ''expression_'']),
      optional (Str '',''),
      Str '']'']"

definition postfix_unary_suffix__rule :: rule where
  "postfix_unary_suffix__rule =
     Choice
     [Sym ''_postfix_unary_operator'',
      Sym ''navigation_suffix'',
      Sym ''indexing_suffix'']"

definition h_postfix_unary_expression_rule :: rule where
  "h_postfix_unary_expression_rule =
     Seq [Sym ''primary_expression_'', Repeat (Sym ''postfix_unary_suffix_'')]"

definition directly_assignable_expression_rule :: rule where
  "directly_assignable_expression_rule =
     Prec PNone (prec_of ''ASSIGNMENT'')
      (Field ''assignment_variable''
         (Choice [Sym ''_postfix_unary_expression'', Sym ''simple_identifier'']))"

subsection \<open>Modifiers\<close>

definition modifiers_rule :: rule where
  "modifiers_rule =
     Prec PLeft 0 (Repeat1 (Choice [Sym ''annotation'', Sym ''_modifier'']))"

definition parameter_modifiers_rule :: rule where
  "parameter_modifiers_rule =
     Repeat1 (Choice [Sym ''annotation'', Sym ''parameter_modifier''])"

definition h_modifier_rule :: rule where
  "h_modifier_rule =
     Choice
     [Sym ''class_modifier'',
      Sym ''member_modifier'',
      Sym ''visibility_modifier'',
      Sym ''function_modifier'',
      Sym ''property_modifier'',
      Sym ''inheritance_modifier'',
      Sym ''parameter_modifier'',
      Sym ''platform_modifier'']"

definition type_modifiers_rule :: rule where
  "type_modifiers_rule = Repeat1 (Sym ''_type_modifier'')"

definition h_type_modifier_rule :: rule where
  "h_type_modifier_rule = Choice [Sym ''annotation'', Str ''suspend'']"

definition class_modifier_rule :: rule where
  "class_modifier_rule =
     Choice [Str ''sealed'', Str ''annotation'', Str ''data'', Str ''inner'']"

definition member_modifier_rule :: rule where
  "member_modifier_rule = Choice [Str ''override'', Str ''lateinit'']"

definition visibility_modifier_rule :: rule where
  "visibility_modifier_rule =
     Choice [Str ''public'', Str ''private'', Str ''internal'', Str ''protected'']"

definition variance_modifier_rule :: rule where
  "variance_modifier_rule = Choice [Str ''in'', Str ''out'']"

definition type_parameter_modifiers_rule :: rule where
  "type_parameter_modifiers_rule = Repeat1 (Sym ''_type_parameter_modifier'')"

definition h_type_parameter_modifier_rule :: rule where
  "h_type_parameter_modifier_rule =
     Choice [Sym ''reification_modifier'', Sym ''variance_modifier'', Sym ''annotation'']"

definition function_modifier_rule :: rule where
  "function_modifier_rule =
     Choice
     [Str ''tailrec'',
      Str ''operator'',
      Str ''infix'',
      Str ''inline'',
      Str ''external'',
      Str ''suspend'']"

definition property_modifier_rule :: rule where
  "property_modifier_rule = Str ''const''"

definition inheritance_modifier_rule :: rule where
  "inheritance_modifier_rule = Choice [Str ''abstract'', Str ''final'', Str ''open'']"

definition parameter_modifier_rule :: rule where
  "parameter_modifier_rule =
     Choice [Str ''vararg'', Str ''noinline'', Str ''crossinline'']"

definition reification_modifier_rule :: rule where
  "reification_modifier_rule = Str ''reified''"

definition platform_modifier_rule :: rule where
  "platform_modifier_rule = Choice [Str ''expect'', Str ''actual'']"

subsection \<open>Annotations\<close>

definition annotation_rule :: rule where
  "annotation_rule = Choice [Sym ''_single_annotation'', Sym ''_multi_annotation'']"

definition h_single_annotation_rule :: rule where
  "h_single_annotation_rule =
     Seq [Str ''@'', optional (Sym ''use_site_target''), Sym ''_unescaped_annotation'']"

definition h_multi_annotation_rule :: rule where
  "h_multi_annotation_rule =
     Seq
     [Str ''@'',
      optional (Sym ''use_site_target''),
      Str ''['',
      Repeat1 (Sym ''_unescaped_annotation''),
      Str '']'']"

definition use_site_target_rule :: rule where
  "use_site_target_rule =
     Seq
     [Choice
       [Str ''field'',
        Str ''property'',
        Str ''get'',
        Str ''set'',
        Str ''receiver'',
        Str ''param'',
        Str ''setparam'',
        Str ''delegate''],
      Str '':'']"

definition h_unescaped_annotation_rule :: rule where
  "h_unescaped_annotation_rule =
     Choice [Sym ''constructor_invocation'', Sym ''user_type'']"

subsection \<open>Identifiers\<close>

definition simple_identifier_rule :: rule where
  "simple_identifier_rule =
     Choice
     [Sym ''lexical_identifier_'',
      Str ''expect'',
      Str ''data'',
      Str ''inner'',
      Str ''actual'',
      Str ''set'',
      Str ''get'']"

definition identifier_rule :: rule where
  "identifier_rule = sep1 (Sym ''simple_identifier'') (Str ''.'')"

subsection \<open>Lexical General\<close>

definition comment_rule :: rule where
  "comment_rule =
     Token
      (Prec PNone (prec_of ''COMMENT'')
         (Choice
           [Seq [Str ''//'', Pat (RStar (NotOne line_terminators))],
            Seq
             [Str ''/*'',
              Pat (RSeq (RStar (NotOne ''*'')) (RSeq (RPlus (One ''*'')) (RStar (RSeq (NotOne ''/*'') (RSeq (RStar (NotOne ''*'')) (RPlus (One ''*''))))))),
              Str ''/'']]))"

subsection \<open>Lexical Keywords\<close>

definition h_return_at_rule :: rule where
  "h_return_at_rule = Seq [Str ''return@'', Sym ''lexical_identifier_'']"

definition h_continue_at_rule :: rule where
  "h_continue_at_rule = Seq [Str ''continue@'', Sym ''lexical_identifier_'']"

definition h_break_at_rule :: rule where
  "h_break_at_rule = Seq [Str ''break@'', Sym ''lexical_identifier_'']"

definition h_this_at_rule :: rule where
  "h_this_at_rule = Seq [Str ''this@'', Sym ''lexical_identifier_'']"

definition h_super_at_rule :: rule where
  "h_super_at_rule = Seq [Str ''super@'', Sym ''lexical_identifier_'']"

definition h_not_is_rule :: rule where
  "h_not_is_rule = Str ''!is''"

definition h_not_in_rule :: rule where
  "h_not_in_rule = Str ''!in''"

subsection \<open>Lexical Literals\<close>

definition real_literal_rule :: rule where
  "real_literal_rule =
     Token
      (Choice
        [Seq
          [Choice
            [Seq [DEC_DIGITS, REAL_EXPONENT],
             Seq [optional DEC_DIGITS, Str ''.'', DEC_DIGITS, optional REAL_EXPONENT]],
           optional (Pat (One ''fF''))],
         Seq [DEC_DIGITS, Pat (One ''fF'')]])"

definition integer_literal_rule :: rule where
  "integer_literal_rule = Token (Seq [optional (Pat (One nonzero_digit)), DEC_DIGITS])"

definition hex_literal_rule :: rule where
  "hex_literal_rule = Token (Seq [Str ''0'', Pat (One ''xX''), HEX_DIGITS])"

definition bin_literal_rule :: rule where
  "bin_literal_rule = Token (Seq [Str ''0'', Pat (One ''bB''), BIN_DIGITS])"

definition unsigned_literal_rule :: rule where
  "unsigned_literal_rule =
     Seq
     [Choice [Sym ''integer_literal'', Sym ''hex_literal'', Sym ''bin_literal''],
      Pat (One ''uU''),
      optional (Str ''L'')]"

definition long_literal_rule :: rule where
  "long_literal_rule =
     Seq
     [Choice [Sym ''integer_literal'', Sym ''hex_literal'', Sym ''bin_literal''],
      Str ''L'']"

definition boolean_literal_rule :: rule where
  "boolean_literal_rule = Choice [Str ''true'', Str ''false'']"

definition character_literal_rule :: rule where
  "character_literal_rule =
     Seq
     [Str [CHR 0x27],
      Choice [Sym ''escape_seq_'', Pat (NotOne [CHR 0x0A, CHR 0x0D, CHR 0x27, CHR 0x5C])],
      Str [CHR 0x27]]"

subsection \<open>Lexical Identifiers\<close>

definition lexical_identifier__rule :: rule where
  "lexical_identifier__rule =
     Choice [Sym ''_alpha_identifier'', Sym ''_backtick_identifier'']"

definition h_alpha_identifier_rule :: rule where
  "h_alpha_identifier_rule =
     Pat (RSeq (One (lower @ upper @ ''_'')) (RStar (One (lower @ upper @ ''_'' @ digit))))"

definition h_backtick_identifier_rule :: rule where
  "h_backtick_identifier_rule =
     Pat (RSeq (One [CHR 0x60]) (RSeq (RPlus (NotOne [CHR 0x0D, CHR 0x0A, CHR 0x60])) (One [CHR 0x60])))"

definition h_uni_character_literal_rule :: rule where
  "h_uni_character_literal_rule =
     Seq [Str ([CHR 0x5C] @ ''u''), Pat (RTimes 4 (One (digit @ ''abcdef'' @ ''ABCDEF'')))]"

definition h_escaped_identifier_rule :: rule where
  "h_escaped_identifier_rule =
     Pat (RSeq (One [CHR 0x5C]) (One (''tbrn'' @ [CHR 0x27, CHR 0x22, CHR 0x5C] @ ''$'')))"

definition escape_seq__rule :: rule where
  "escape_seq__rule =
     Choice [Sym ''_uni_character_literal'', Sym ''_escaped_identifier'']"

subsection \<open>Lexical Strings\<close>

definition h_line_str_text_rule :: rule where
  "h_line_str_text_rule = Pat (RPlus (NotOne ([CHR 0x5C, CHR 0x22] @ ''$'')))"

definition h_line_str_escaped_char_rule :: rule where
  "h_line_str_escaped_char_rule =
     Choice [Sym ''_escaped_identifier'', Sym ''_uni_character_literal'']"

definition h_multi_line_str_text_rule :: rule where
  "h_multi_line_str_text_rule = Pat (RPlus (NotOne ([CHR 0x22] @ ''$'')))"

subsection \<open>The rule table\<close>

definition grammar :: "(string \<times> rule) list" where
  "grammar =
    [(''program'', program_rule),
     (''statement'', statement_rule),
     (''shebang_line'', shebang_line_rule),
     (''file_annotation'', file_annotation_rule),
     (''package_header'', package_header_rule),
     (''import'', import_rule),
     (''import_alias'', import_alias_rule),
     (''top_level_object'', top_level_object_rule),
     (''type_alias'', type_alias_rule),
     (''declaration_'', declaration__rule),
     (''class_declaration'', class_declaration_rule),
     (''primary_constructor'', primary_constructor_rule),
     (''class_body'', class_body_rule),
     (''_class_parameters'', h_class_parameters_rule),
     (''class_parameter'', class_parameter_rule),
     (''delegation_specifiers_'', delegation_specifiers__rule),
     (''delegation_specifier'', delegation_specifier_rule),
     (''constructor_invocation'', constructor_invocation_rule),
     (''_annotated_delegation_specifier'', h_annotated_delegation_specifier_rule),
     (''explicit_delegation'', explicit_delegation_rule),
     (''type_parameters'', type_parameters_rule),
     (''type_parameter'', type_parameter_rule),
     (''type_constraints'', type_constraints_rule),
     (''type_constraint'', type_constraint_rule),
     (''class_member_declarations_'', class_member_declarations__rule),
     (''_class_member_declaration'', h_class_member_declaration_rule),
     (''anonymous_initializer'', anonymous_initializer_rule),
     (''companion_object'', companion_object_rule),
     (''function_value_parameters_'', function_value_parameters__rule),
     (''function_value_parameter_'', function_value_parameter__rule),
     (''receiver_type_'', receiver_type__rule),
     (''function'', function_rule),
     (''function_body'', function_body_rule),
     (''single_variable_declaration'', single_variable_declaration_rule),
     (''variable_declaration'', variable_declaration_rule),
     (''property_assignment'', property_assignment_rule),
     (''property_assignment_value'', property_assignment_value_rule),
     (''property'', property_rule),
     (''property_delegate'', property_delegate_rule),
     (''getter'', getter_rule),
     (''setter'', setter_rule),
     (''parameters_with_optional_type'', parameters_with_optional_type_rule),
     (''parameter_with_optional_type'', parameter_with_optional_type_rule),
     (''parameter_'', parameter__rule),
     (''object_declaration'', object_declaration_rule),
     (''secondary_constructor'', secondary_constructor_rule),
     (''constructor_delegation_call'', constructor_delegation_call_rule),
     (''enum_class_body'', enum_class_body_rule),
     (''_enum_entries'', h_enum_entries_rule),
     (''enum_entry'', enum_entry_rule),
     (''_type'', h_type_rule),
     (''type_reference_'', type_reference__rule),
     (''nullable_type'', nullable_type_rule),
     (''_quest'', h_quest_rule),
     (''user_type'', user_type_rule),
     (''_simple_user_type'', h_simple_user_type_rule),
     (''type_projection'', type_projection_rule),
     (''type_projection_modifiers'', type_projection_modifiers_rule),
     (''_type_projection_modifier'', h_type_projection_modifier_rule),
     (''function_type'', function_type_rule),
     (''function_type_parameters'', function_type_parameters_rule),
     (''parenthesized_type'', parenthesized_type_rule),
     (''parenthesized_user_type'', parenthesized_user_type_rule),
     (''statements'', statements_rule),
     (''statement_'', statement__rule),
     (''label'', label_rule),
     (''control_structure_body'', control_structure_body_rule),
     (''enclosed_body'', enclosed_body_rule),
     (''loop_statement_'', loop_statement__rule),
     (''for'', for_rule),
     (''for_each_clause'', for_each_clause_rule),
     (''while'', while_rule),
     (''while_clause'', while_clause_rule),
     (''do_while_statement'', do_while_statement_rule),
     (''_semi'', h_semi_rule),
     (''_semis'', h_semis_rule),
     (''assignment'', assignment_rule),
     (''assignment_value'', assignment_value_rule),
     (''expression_'', expression__rule),
     (''_unary_expression'', h_unary_expression_rule),
     (''postfix_expression'', postfix_expression_rule),
     (''call'', call_rule),
     (''indexing_expression'', indexing_expression_rule),
     (''navigation_expression'', navigation_expression_rule),
     (''prefix_expression'', prefix_expression_rule),
     (''as_expression'', as_expression_rule),
     (''spread_expression'', spread_expression_rule),
     (''_binary_expression'', h_binary_expression_rule),
     (''multiplicative_expression'', multiplicative_expression_rule),
     (''additive_expression'', additive_expression_rule),
     (''range_expression'', range_expression_rule),
     (''infix_expression'', infix_expression_rule),
     (''elvis_expression'', elvis_expression_rule),
     (''check_expression'', check_expression_rule),
     (''comparison_expression'', comparison_expression_rule),
     (''equality_expression'', equality_expression_rule),
     (''conjunction_expression'', conjunction_expression_rule),
     (''disjunction_expression'', disjunction_expression_rule),
     (''indexing_suffix'', indexing_suffix_rule),
     (''navigation_suffix'', navigation_suffix_rule),
     (''call_suffix'', call_suffix_rule),
     (''annotated_lambda'', annotated_lambda_rule),
     (''type_arguments'', type_arguments_rule),
     (''value_arguments'', value_arguments_rule),
     (''value_argument'', value_argument_rule),
     (''primary_expression_'', primary_expression__rule),
     (''parenthesized_expression'', parenthesized_expression_rule),
     (''collection_literal'', collection_literal_rule),
     (''_literal_constant'', h_literal_constant_rule),
     (''string_literal'', string_literal_rule),
     (''line_string_literal'', line_string_literal_rule),
     (''multi_line_string_literal'', multi_line_string_literal_rule),
     (''line_string_content_'', line_string_content__rule),
     (''line_string_expression'', line_string_expression_rule),
     (''_multi_line_string_content'', h_multi_line_string_content_rule),
     (''interpolation_'', interpolation__rule),
     (''lambda_literal'', lambda_literal_rule),
     (''multi_variable_declaration'', multi_variable_declaration_rule),
     (''lambda_parameters'', lambda_parameters_rule),
     (''_lambda_parameter'', h_lambda_parameter_rule),
     (''anonymous_function'', anonymous_function_rule),
     (''_function_literal'', h_function_literal_rule),
     (''object_literal'', object_literal_rule),
     (''this_expression'', this_expression_rule),
     (''super_expression'', super_expression_rule),
     (''if'', if_rule),
     (''if_clause'', if_clause_rule),
     (''else_if_clause'', else_if_clause_rule),
     (''else_clause'', else_clause_rule),
     (''when_subject'', when_subject_rule),
     (''when_expression'', when_expression_rule),
     (''when_entry'', when_entry_rule),
     (''when_condition'', when_condition_rule),
     (''range_test'', range_test_rule),
     (''type_test'', type_test_rule),
     (''try'', try_rule),
     (''try_clause'', try_clause_rule),
     (''catch'', catch_rule),
     (''finally_clause'', finally_clause_rule),
     (''jump_expression'', jump_expression_rule),
     (''throw'', throw_rule),
     (''return'', return_rule),
     (''callable_reference'', callable_reference_rule),
     (''_assignment_and_operator'', h_assignment_and_operator_rule),
     (''_equality_operator'', h_equality_operator_rule),
     (''_comparison_operator'', h_comparison_operator_rule),
     (''_in_operator'', h_in_operator_rule),
     (''_is_operator'', h_is_operator_rule),
     (''_additive_operator'', h_additive_operator_rule),
     (''_multiplicative_operator'', h_multiplicative_operator_rule),
     (''_as_operator'', h_as_operator_rule),
     (''_prefix_unary_operator'', h_prefix_unary_operator_rule),
     (''_postfix_unary_operator'', h_postfix_unary_operator_rule),
     (''_member_access_operator'', h_member_access_operator_rule),
     (''_safe_nav'', h_safe_nav_rule),
     (''_indexing_suffix'', h_indexing_suffix_rule),
     (''postfix_unary_suffix_'', postfix_unary_suffix__rule),
     (''_postfix_unary_expression'', h_postfix_unary_expression_rule),
     (''directly_assignable_expression'', directly_assignable_expression_rule),
     (''modifiers'', modifiers_rule),
     (''parameter_modifiers'', parameter_modifiers_rule),
     (''_modifier'', h_modifier_rule),
     (''type_modifiers'', type_modifiers_rule),
     (''_type_modifier'', h_type_modifier_rule),
     (''class_modifier'', class_modifier_rule),
     (''member_modifier'', member_modifier_rule),
     (''visibility_modifier'', visibility_modifier_rule),
     (''variance_modifier'', variance_modifier_rule),
     (''type_parameter_modifiers'', type_parameter_modifiers_rule),
     (''_type_parameter_modifier'', h_type_parameter_modifier_rule),
     (''function_modifier'', function_modifier_rule),
     (''property_modifier'', property_modifier_rule),
     (''inheritance_modifier'', inheritance_modifier_rule),
     (''parameter_modifier'', parameter_modifier_rule),
     (''reification_modifier'', reification_modifier_rule),
     (''platform_modifier'', platform_modifier_rule),
     (''annotation'', annotation_rule),
     (''_single_annotation'', h_single_annotation_rule),
     (''_multi_annotation'', h_multi_annotation_rule),
     (''use_site_target'', use_site_target_rule),
     (''_unescaped_annotation'', h_unescaped_annotation_rule),
     (''simple_identifier'', simple_identifier_rule),
     (''identifier'', identifier_rule),
     (''comment'', comment_rule),
     (''_return_at'', h_return_at_rule),
     (''_continue_at'', h_continue_at_rule),
     (''_break_at'', h_break_at_rule),
     (''_this_at'', h_this_at_rule),
     (''_super_at'', h_super_at_rule),
     (''_not_is'', h_not_is_rule),
     (''_not_in'', h_not_in_rule),
     (''real_literal'', real_literal_rule),
     (''integer_literal'', integer_literal_rule),
     (''hex_literal'', hex_literal_rule),
     (''bin_literal'', bin_literal_rule),
     (''unsigned_literal'', unsigned_literal_rule),
     (''long_literal'', long_literal_rule),
     (''boolean_literal'', boolean_literal_rule),
     (''character_literal'', character_literal_rule),
     (''lexical_identifier_'', lexical_identifier__rule),
     (''_alpha_identifier'', h_alpha_identifier_rule),
     (''_backtick_identifier'', h_backtick_identifier_rule),
     (''_uni_character_literal'', h_uni_character_literal_rule),
     (''_escaped_identifier'', h_escaped_identifier_rule),
     (''escape_seq_'', escape_seq__rule),
     (''_line_str_text'', h_line_str_text_rule),
     (''_line_str_escaped_char'', h_line_str_escaped_char_rule),
     (''_multi_line_str_text'', h_multi_line_str_text_rule)]"

definition rules :: "string \<Rightarrow> rule option" where
  "rules = map_of grammar"

text \<open>The other members of the grammar object: conflicts, externals, extras and word.\<close>

definition conflicts :: "string list list" where
  "conflicts =
    [[''anonymous_function''],
     [''primary_expression_'', ''callable_reference''],
     [''constructor_invocation'', ''_unescaped_annotation''],
     [''platform_modifier'', ''simple_identifier''],
     [''class_modifier'', ''simple_identifier''],
     [''_postfix_unary_expression'', ''expression_''],
     [''call'', ''prefix_expression'', ''comparison_expression''],
     [''call'', ''range_expression'', ''comparison_expression''],
     [''call'', ''elvis_expression'', ''comparison_expression''],
     [''call'', ''check_expression'', ''comparison_expression''],
     [''call'', ''additive_expression'', ''comparison_expression''],
     [''call'', ''infix_expression'', ''comparison_expression''],
     [''call'', ''multiplicative_expression'', ''comparison_expression''],
     [''type_arguments'', ''_comparison_operator''],
     [''statement_'', ''prefix_expression''],
     [''statement_'', ''prefix_expression'', ''modifiers''],
     [''prefix_expression'', ''when_subject''],
     [''prefix_expression'', ''value_argument''],
     [''user_type''],
     [''user_type'', ''anonymous_function''],
     [''user_type'', ''function_type''],
     [''annotated_lambda'', ''modifiers''],
     [''setter'', ''simple_identifier''],
     [''getter'', ''simple_identifier''],
     [''if''],
     [''if_clause'', ''else_if_clause''],
     [''return''],
     [''variable_declaration''],
     [''property_assignment'']]"

definition externals :: "string list" where
  "externals = [''_automatic_semicolon'']"

definition extras :: "rule list" where
  "extras = [Sym ''comment'', Pat (RPlus (One whitespace))]"

definition word :: string where
  "word = ''_alpha_identifier''"

section \<open>Tokens\<close>

text \<open>
  The body of a \<open>token(...)\<close> and every string or pattern terminal denotes a
  regular expression.  A symbol has no place inside a token and matches nothing.
\<close>

definition lit :: "string \<Rightarrow> regex" where
  "lit s = foldr (\<lambda>c r. RSeq (One [c]) r) s Eps"

fun rx :: "rule \<Rightarrow> regex" where
  "rx Blank = Eps"
| "rx (Str s) = lit s"
| "rx (Pat p) = p"
| "rx (Sym n) = One []"
| "rx (Seq rs) = foldr RSeq (map rx rs) Eps"
| "rx (Choice rs) = foldr RAlt (map rx rs) (One [])"
| "rx (Repeat r) = RStar (rx r)"
| "rx (Repeat1 r) = RPlus (rx r)"
| "rx (Field f r) = rx r"
| "rx (Alias r n) = rx r"
| "rx (Token r) = rx r"
| "rx (Prec k p r) = rx r"

fun terminal :: "rule \<Rightarrow> bool" where
  "terminal (Str s) = True"
| "terminal (Pat p) = True"
| "terminal (Token r) = True"
| "terminal (Prec k p r) = terminal r"
| "terminal r = False"

text \<open>A rule whose name starts with an underscore is hidden from the tree.\<close>

definition hidden :: "string \<Rightarrow> bool" where
  "hidden n = (case n of [] \<Rightarrow> False | c # cs \<Rightarrow> c = CHR ''_'')"

section \<open>Derivations\<close>

text \<open>
  A derivation records how a rule consumed its input: a terminal with the extras
  skipped in front of it and its text, the expansion of a symbol, the members of a
  sequence, the alternative taken by a choice, the rounds of a repetition.
  Extras (white space and comments) may stand in front of every terminal.
\<close>

datatype extra = WS string | Comment string

datatype deriv =
    DBlank
  | DTok "extra list" string
  | DSym string deriv
  | DSeq "deriv list"
  | DChoice nat deriv
  | DRep "deriv list"

fun extra_text :: "extra \<Rightarrow> string" where
  "extra_text (WS w) = w"
| "extra_text (Comment c) = c"

definition extra_ok :: "extra \<Rightarrow> bool" where
  "extra_ok e =
     (case e of
        WS w \<Rightarrow> rmatch (RPlus (One whitespace)) w
      | Comment c \<Rightarrow> (case rules ''comment'' of Some r \<Rightarrow> rmatch (rx r) c | None \<Rightarrow> False))"

text \<open>The input text that a derivation covers.\<close>

fun yield :: "deriv \<Rightarrow> string" where
  "yield DBlank = []"
| "yield (DTok ex l) = concat (map extra_text ex) @ l"
| "yield (DSym n d) = yield d"
| "yield (DSeq ds) = concat (map yield ds)"
| "yield (DChoice i d) = yield d"
| "yield (DRep ds) = concat (map yield ds)"

text \<open>
  \<open>valid r d\<close>: the derivation \<open>d\<close> follows the rule \<open>r\<close>.  The only symbols
  without a rule are the external tokens.  The external scanner, which is not part of
  grammar.js, decides where such a token stands and what text it takes; validity
  leaves both open.
\<close>

function valid :: "rule \<Rightarrow> deriv \<Rightarrow> bool" where
  "valid Blank d = (d = DBlank)"
| "valid (Str s) d = (case d of DTok ex l \<Rightarrow> list_all extra_ok ex \<and> l = s | _ \<Rightarrow> False)"
| "valid (Pat p) d = (case d of DTok ex l \<Rightarrow> list_all extra_ok ex \<and> rmatch p l | _ \<Rightarrow> False)"
| "valid (Token r) d =
     (case d of DTok ex l \<Rightarrow> list_all extra_ok ex \<and> rmatch (rx r) l | _ \<Rightarrow> False)"
| "valid (Sym n) d =
     (case d of
        DSym m d' \<Rightarrow> m = n \<and> (case rules n of Some r \<Rightarrow> valid r d' | None \<Rightarrow> False)
      | DTok ex l \<Rightarrow> rules n = None \<and> n \<in> set externals \<and> list_all extra_ok ex
      | _ \<Rightarrow> False)"
| "valid (Seq rs) d = (case d of DSeq ds \<Rightarrow> list_all2 valid rs ds | _ \<Rightarrow> False)"
| "valid (Choice rs) d =
     (case d of DChoice i d' \<Rightarrow> i < length rs \<and> valid (rs ! i) d' | _ \<Rightarrow> False)"
| "valid (Repeat r) d = (case d of DRep ds \<Rightarrow> list_all (valid r) ds | _ \<Rightarrow> False)"
| "valid (Repeat1 r) d = (case d of DRep ds \<Rightarrow> ds \<noteq> [] \<and> list_all (valid r) ds | _ \<Rightarrow> False)"
| "valid (Field f r) d = valid r d"
| "valid (Alias r n) d = valid r d"
| "valid (Prec k p r) d = valid r d"
  by pat_completeness auto
termination
  by (relation "measures [\<lambda>(r, d). size d, \<lambda>(r, d). size r]")
     (auto simp: less_Suc_eq_le size_list_estimation')

declare valid.simps [simp del]

section \<open>The syntax tree\<close>

text \<open>
  A node carries its kind, whether it is named, the text it spans and its children.
  A string or pattern terminal gives an anonymous node without children; a visible
  rule that is a single terminal gives a named one; a hidden one gives no node.  A
  field binds its name to the nodes of its rule, and to no node at all when the rule
  is \<open>blank()\<close>.  White space leaves no node; a comment does.  The text of a node
  starts after the white space in front of its first token.
\<close>

datatype cst =
    Node string bool string "cst list"
  | FieldOf string "cst list"

fun is_ws :: "extra \<Rightarrow> bool" where
  "is_ws (WS w) = True"
| "is_ws (Comment c) = False"

definition pad :: "extra list \<Rightarrow> nat" where
  "pad ex = length (concat (map extra_text (takeWhile is_ws ex)))"

fun lead :: "deriv \<Rightarrow> nat option" where
  "lead DBlank = None"
| "lead (DTok ex l) = Some (pad ex)"
| "lead (DSym n d) = lead d"
| "lead (DSeq ds) = (case filter (\<lambda>x. x \<noteq> None) (map lead ds) of [] \<Rightarrow> None | x # xs \<Rightarrow> x)"
| "lead (DChoice i d) = lead d"
| "lead (DRep ds) = (case filter (\<lambda>x. x \<noteq> None) (map lead ds) of [] \<Rightarrow> None | x # xs \<Rightarrow> x)"

definition text_of :: "deriv \<Rightarrow> string" where
  "text_of d = drop (case lead d of Some k \<Rightarrow> k | None \<Rightarrow> 0) (yield d)"

definition extras_cst :: "extra list \<Rightarrow> cst list" where
  "extras_cst ex =
     concat (map (\<lambda>e. case e of WS w \<Rightarrow> [] | Comment c \<Rightarrow> [Node ''comment'' True c []]) ex)"

definition token_cst :: "string \<Rightarrow> deriv \<Rightarrow> cst list" where
  "token_cst shown d =
     (case d of
        DTok ex l \<Rightarrow> extras_cst ex @ (if hidden shown then [] else [Node shown True l []])
      | _ \<Rightarrow> [])"

definition wrap :: "string \<Rightarrow> deriv \<Rightarrow> cst list \<Rightarrow> cst list" where
  "wrap shown d kids = (if hidden shown then kids else [Node shown True (text_of d) kids])"

function tree :: "rule \<Rightarrow> deriv \<Rightarrow> cst list" where
  "tree Blank d = []"
| "tree (Str s) d = (case d of DTok ex l \<Rightarrow> extras_cst ex @ [Node s False l []] | _ \<Rightarrow> [])"
| "tree (Pat p) d = (case d of DTok ex l \<Rightarrow> extras_cst ex @ [Node [] False l []] | _ \<Rightarrow> [])"
| "tree (Token r) d = (case d of DTok ex l \<Rightarrow> extras_cst ex @ [Node [] False l []] | _ \<Rightarrow> [])"
| "tree (Sym n) d =
     (case d of
        DSym m d' \<Rightarrow>
          (case rules n of
             Some r \<Rightarrow> if terminal r then token_cst n d' else wrap n d' (tree r d')
           | None \<Rightarrow> [])
      | DTok ex l \<Rightarrow> token_cst n d
      | _ \<Rightarrow> [])"
| "tree (Alias r n) d =
     (case r of
        Sym a \<Rightarrow>
          (case d of
             DSym m d' \<Rightarrow>
               (case rules a of
                  Some b \<Rightarrow>
                    if terminal b then token_cst n d'
                    else [Node n True (text_of d') (tree b d')]
                | None \<Rightarrow> [])
           | DTok ex l \<Rightarrow> token_cst n d
           | _ \<Rightarrow> [])
      | _ \<Rightarrow> [Node n True (text_of d) (tree r d)])"
| "tree (Seq rs) d = (case d of DSeq ds \<Rightarrow> concat (map2 tree rs ds) | _ \<Rightarrow> [])"
| "tree (Choice rs) d =
     (case d of DChoice i d' \<Rightarrow> if i < length rs then tree (rs ! i) d' else [] | _ \<Rightarrow> [])"
| "tree (Repeat r) d = (case d of DRep ds \<Rightarrow> concat (map (tree r) ds) | _ \<Rightarrow> [])"
| "tree (Repeat1 r) d = (case d of DRep ds \<Rightarrow> concat (map (tree r) ds) | _ \<Rightarrow> [])"
| "tree (Field f r) d = [FieldOf f (tree r d)]"
| "tree (Prec k p r) d = tree r d"
  by pat_completeness auto
termination
  by (relation "measures [\<lambda>(r, d). size d, \<lambda>(r, d). size r]")
     (auto simp: less_Suc_eq_le size_list_estimation' dest!: set_zip_rightD)

declare tree.simps [simp del]

text \<open>
  The leaves of a tree are its nodes without children; their texts from left to
  right.  A field bound to no node contributes nothing.
\<close>

fun leaf_texts :: "cst \<Rightarrow> string list" where
  "leaf_texts (Node k named t ts) = (if ts = [] then [t] else concat (map leaf_texts ts))"
| "leaf_texts (FieldOf f ts) = concat (map leaf_texts ts)"

definition leaves :: "cst list \<Rightarrow> string list" where
  "leaves ts = concat (map leaf_texts ts)"



fun field_names :: "cst \<Rightarrow> string list" where
  "field_names (Node k named t ts) = concat (map field_names ts)"
| "field_names (FieldOf f ts) = f # concat (map field_names ts)"

definition fields_of :: "cst list \<Rightarrow> string list" where
  "fields_of ts = concat (map field_names ts)"


section \<open>The lexer: longest match and keywords\<close>

text \<open>
  The lexer takes the longest match.  A string terminal that the \<open>word\<close> rule
  matches is a keyword: the lexer reads a whole word and then compares it.
  \<open>lexemes\<close> lists the terminals of a derivation from left to right: what the lexer
  ran (nothing for an external token), the skipped text in front, and the text.
\<close>

definition word_rx :: regex where
  "word_rx = (case rules word of Some (Pat p) \<Rightarrow> p | _ \<Rightarrow> One [])"

definition scan_rx :: "rule \<Rightarrow> regex" where
  "scan_rx r = (case r of Str s \<Rightarrow> if rmatch word_rx s then word_rx else lit s | _ \<Rightarrow> rx r)"

definition lexeme :: "rule \<Rightarrow> deriv \<Rightarrow> (regex option \<times> string \<times> string) list" where
  "lexeme r d =
     (case d of DTok ex l \<Rightarrow> [(Some (scan_rx r), concat (map extra_text ex), l)] | _ \<Rightarrow> [])"

function lexemes :: "rule \<Rightarrow> deriv \<Rightarrow> (regex option \<times> string \<times> string) list" where
  "lexemes Blank d = []"
| "lexemes (Str s) d = lexeme (Str s) d"
| "lexemes (Pat p) d = lexeme (Pat p) d"
| "lexemes (Token r) d = lexeme (Token r) d"
| "lexemes (Sym n) d =
     (case d of
        DSym m d' \<Rightarrow> (case rules n of Some r \<Rightarrow> lexemes r d' | None \<Rightarrow> [])
      | DTok ex l \<Rightarrow> [(None, concat (map extra_text ex), l)]
      | _ \<Rightarrow> [])"
| "lexemes (Seq rs) d = (case d of DSeq ds \<Rightarrow> concat (map2 lexemes rs ds) | _ \<Rightarrow> [])"
| "lexemes (Choice rs) d =
     (case d of DChoice i d' \<Rightarrow> if i < length rs then lexemes (rs ! i) d' else [] | _ \<Rightarrow> [])"
| "lexemes (Repeat r) d = (case d of DRep ds \<Rightarrow> concat (map (lexemes r) ds) | _ \<Rightarrow> [])"
| "lexemes (Repeat1 r) d = (case d of DRep ds \<Rightarrow> concat (map (lexemes r) ds) | _ \<Rightarrow> [])"
| "lexemes (Field f r) d = lexemes r d"
| "lexemes (Alias r n) d = lexemes r d"
| "lexemes (Prec k p r) d = lexemes r d"
  by pat_completeness auto
termination
  by (relation "measures [\<lambda>(r, d). size d, \<lambda>(r, d). size r]")
     (auto simp: less_Suc_eq_le size_list_estimation' dest!: set_zip_rightD)

declare lexemes.simps [simp del]

fun munch :: "(regex option \<times> string \<times> string) list \<Rightarrow> bool" where
  "munch [] = True"
| "munch ((r, e, l) # ts) =
     ((case r of
         None \<Rightarrow> True
       | Some x \<Rightarrow> longest x (l @ concat (map (\<lambda>(r, e, l). e @ l) ts)) = Some (length l))
      \<and> munch ts)"

section \<open>Precedence and associativity of a tree\<close>











section \<open>Placeholder fields\<close>

text \<open>
  The names that a rule passes to \<open>optional_with_placeholder\<close>, and the fields of
  a rule that are not bound that way.
\<close>

fun placeholders :: "rule \<Rightarrow> string list" where
  "placeholders (Seq rs) = concat (map placeholders rs)"
| "placeholders (Choice rs) =
     (case rs of
        [Field f r, Field g Blank] \<Rightarrow> if f = g then f # placeholders r else placeholders r
      | _ \<Rightarrow> concat (map placeholders rs))"
| "placeholders (Repeat r) = placeholders r"
| "placeholders (Repeat1 r) = placeholders r"
| "placeholders (Field f r) = placeholders r"
| "placeholders (Alias r n) = placeholders r"
| "placeholders (Token r) = placeholders r"
| "placeholders (Prec k p r) = placeholders r"
| "placeholders r = []"

section \<open>What a rule declares\<close>


fun syms :: "rule \<Rightarrow> string list" where
  "syms (Sym n) = [n]"
| "syms (Seq rs) = concat (map syms rs)"
| "syms (Choice rs) = concat (map syms rs)"
| "syms (Repeat r) = syms r"
| "syms (Repeat1 r) = syms r"
| "syms (Field f r) = syms r"
| "syms (Alias r n) = syms r"
| "syms (Token r) = syms r"
| "syms (Prec k p r) = syms r"
| "syms r = []"


section \<open>Soft keywords\<close>


section \<open>Example derivations\<close>

text \<open>
  Derivations of concrete inputs, written out in full.  Each is checked against the
  grammar below.
\<close>

text \<open>The expression \<open>4.3f\<close>.\<close>

definition real_plain :: deriv where
  "real_plain =
     DSym ''expression_''
       (DChoice 0
          (DSym ''primary_expression_''
             (DChoice 2
                (DSym ''_literal_constant''
                   (DChoice 5 (DSym ''real_literal'' (DTok [] ''4.3f'')))))))"

text \<open>The expression \<open>+53.9e-3F\<close>.\<close>

definition real_plus :: deriv where
  "real_plus =
     DSym ''expression_''
       (DChoice 1
          (DSym ''_unary_expression''
             (DChoice 4
                (DSym ''prefix_expression''
                   (DSeq
                      [DChoice 2 (DSym ''_prefix_unary_operator'' (DChoice 3 (DTok [] ''+''))),
                       DSym ''expression_''
                         (DChoice 0
                            (DSym ''primary_expression_''
                               (DChoice 2
                                  (DSym ''_literal_constant''
                                     (DChoice 5 (DSym ''real_literal'' (DTok [] ''53.9e-3F'')))))))])))))"

text \<open>The expression \<open>-23.434\<close>.\<close>

definition real_minus :: deriv where
  "real_minus =
     DSym ''expression_''
       (DChoice 1
          (DSym ''_unary_expression''
             (DChoice 4
                (DSym ''prefix_expression''
                   (DSeq
                      [DChoice 2 (DSym ''_prefix_unary_operator'' (DChoice 2 (DTok [] ''-''))),
                       DSym ''expression_''
                         (DChoice 0
                            (DSym ''primary_expression_''
                               (DChoice 2
                                  (DSym ''_literal_constant''
                                     (DChoice 5 (DSym ''real_literal'' (DTok [] ''23.434'')))))))])))))"




text \<open>The same text as the comparison of \<open>foo\<close> with \<open>b > c\<close>.\<close>

definition cmp_right :: deriv where
  "cmp_right =
     DSym ''expression_''
       (DChoice 2
          (DSym ''_binary_expression''
             (DChoice 6
                (DSym ''comparison_expression''
                   (DSeq
                      [DSym ''expression_''
                         (DChoice 0
                            (DSym ''primary_expression_''
                               (DChoice 1
                                  (DSym ''simple_identifier''
                                     (DChoice 0
                                        (DSym ''lexical_identifier_''
                                           (DChoice 0
                                              (DSym ''_alpha_identifier'' (DTok [] ''foo''))))))))),
                       DSym ''_comparison_operator'' (DChoice 0 (DTok [WS '' ''] ''<'')),
                       DSym ''expression_''
                         (DChoice 2
                            (DSym ''_binary_expression''
                               (DChoice 6
                                  (DSym ''comparison_expression''
                                     (DSeq
                                        [DSym ''expression_''
                                           (DChoice 0
                                              (DSym ''primary_expression_''
                                                 (DChoice 1
                                                    (DSym ''simple_identifier''
                                                       (DChoice 0
                                                          (DSym ''lexical_identifier_''
                                                             (DChoice 0
                                                                (DSym ''_alpha_identifier''
                                                                   (DTok [WS '' ''] ''b''))))))))),
                                         DSym ''_comparison_operator''
                                           (DChoice 1 (DTok [WS '' ''] ''>'')),
                                         DSym ''expression_''
                                           (DChoice 0
                                              (DSym ''primary_expression_''
                                                 (DChoice 1
                                                    (DSym ''simple_identifier''
                                                       (DChoice 0
                                                          (DSym ''lexical_identifier_''
                                                             (DChoice 0
                                                                (DSym ''_alpha_identifier''
                                                                   (DTok [WS '' ''] ''c'')))))))))])))))])))))"


text \<open>The expression \<open>a - b - c\<close> as \<open>(a - b) - c\<close>.\<close>

definition sub_left :: deriv where
  "sub_left =
     DSym ''expression_''
       (DChoice 2
          (DSym ''_binary_expression''
             (DChoice 1
                (DSym ''additive_expression''
                   (DSeq
                      [DSym ''expression_''
                         (DChoice 2
                            (DSym ''_binary_expression''
                               (DChoice 1
                                  (DSym ''additive_expression''
                                     (DSeq
                                        [DSym ''expression_''
                                           (DChoice 0
                                              (DSym ''primary_expression_''
                                                 (DChoice 1
                                                    (DSym ''simple_identifier''
                                                       (DChoice 0
                                                          (DSym ''lexical_identifier_''
                                                             (DChoice 0
                                                                (DSym ''_alpha_identifier''
                                                                   (DTok [] ''a''))))))))),
                                         DSym ''_additive_operator''
                                           (DChoice 1 (DTok [WS '' ''] ''-'')),
                                         DSym ''expression_''
                                           (DChoice 0
                                              (DSym ''primary_expression_''
                                                 (DChoice 1
                                                    (DSym ''simple_identifier''
                                                       (DChoice 0
                                                          (DSym ''lexical_identifier_''
                                                             (DChoice 0
                                                                (DSym ''_alpha_identifier''
                                                                   (DTok [WS '' ''] ''b'')))))))))]))))),
                       DSym ''_additive_operator'' (DChoice 1 (DTok [WS '' ''] ''-'')),
                       DSym ''expression_''
                         (DChoice 0
                            (DSym ''primary_expression_''
                               (DChoice 1
                                  (DSym ''simple_identifier''
                                     (DChoice 0
                                        (DSym ''lexical_identifier_''
                                           (DChoice 0
                                              (DSym ''_alpha_identifier''
                                                 (DTok [WS '' ''] ''c'')))))))))])))))"

text \<open>The same text as \<open>a - (b - c)\<close>.\<close>

definition sub_right :: deriv where
  "sub_right =
     DSym ''expression_''
       (DChoice 2
          (DSym ''_binary_expression''
             (DChoice 1
                (DSym ''additive_expression''
                   (DSeq
                      [DSym ''expression_''
                         (DChoice 0
                            (DSym ''primary_expression_''
                               (DChoice 1
                                  (DSym ''simple_identifier''
                                     (DChoice 0
                                        (DSym ''lexical_identifier_''
                                           (DChoice 0
                                              (DSym ''_alpha_identifier'' (DTok [] ''a''))))))))),
                       DSym ''_additive_operator'' (DChoice 1 (DTok [WS '' ''] ''-'')),
                       DSym ''expression_''
                         (DChoice 2
                            (DSym ''_binary_expression''
                               (DChoice 1
                                  (DSym ''additive_expression''
                                     (DSeq
                                        [DSym ''expression_''
                                           (DChoice 0
                                              (DSym ''primary_expression_''
                                                 (DChoice 1
                                                    (DSym ''simple_identifier''
                                                       (DChoice 0
                                                          (DSym ''lexical_identifier_''
                                                             (DChoice 0
                                                                (DSym ''_alpha_identifier''
                                                                   (DTok [WS '' ''] ''b''))))))))),
                                         DSym ''_additive_operator''
                                           (DChoice 1 (DTok [WS '' ''] ''-'')),
                                         DSym ''expression_''
                                           (DChoice 0
                                              (DSym ''primary_expression_''
                                                 (DChoice 1
                                                    (DSym ''simple_identifier''
                                                       (DChoice 0
                                                          (DSym ''lexical_identifier_''
                                                             (DChoice 0
                                                                (DSym ''_alpha_identifier''
                                                                   (DTok [WS '' ''] ''c'')))))))))])))))])))))"

text \<open>The expression \<open>- -a\<close>.\<close>

definition neg_neg :: deriv where
  "neg_neg =
     DSym ''expression_''
       (DChoice 1
          (DSym ''_unary_expression''
             (DChoice 4
                (DSym ''prefix_expression''
                   (DSeq
                      [DChoice 2 (DSym ''_prefix_unary_operator'' (DChoice 2 (DTok [] ''-''))),
                       DSym ''expression_''
                         (DChoice 1
                            (DSym ''_unary_expression''
                               (DChoice 4
                                  (DSym ''prefix_expression''
                                     (DSeq
                                        [DChoice 2
                                           (DSym ''_prefix_unary_operator''
                                              (DChoice 2 (DTok [WS '' ''] ''-''))),
                                         DSym ''expression_''
                                           (DChoice 0
                                              (DSym ''primary_expression_''
                                                 (DChoice 1
                                                    (DSym ''simple_identifier''
                                                       (DChoice 0
                                                          (DSym ''lexical_identifier_''
                                                             (DChoice 0
                                                                (DSym ''_alpha_identifier''
                                                                   (DTok [] ''a'')))))))))])))))])))))"

text \<open>The lambda literal \<open>{ }\<close>, which has no statements.\<close>

definition lambda_empty :: deriv where
  "lambda_empty =
     DSym ''expression_''
       (DChoice 0
          (DSym ''primary_expression_''
             (DChoice 5
                (DSym ''_function_literal''
                   (DChoice 0
                      (DSym ''lambda_literal''
                         (DSeq
                            [DTok [] ''{'',
                             DChoice 1 DBlank,
                             DChoice 1 DBlank,
                             DTok [WS '' ''] ''}''])))))))"

text \<open>The program of the two lines \<open>true\<close> and \<open>false\<close>, each ended by an automatic semicolon.\<close>

definition two_bools :: deriv where
  "two_bools =
     DSym ''program''
       (DSeq
          [DChoice 1 DBlank,
           DRep [],
           DChoice 1 DBlank,
           DChoice 0 (DRep []),
           DChoice 0
             (DRep
                [DSym ''statement''
                   (DSeq
                      [DSym ''statement_''
                         (DChoice 1
                            (DSeq
                               [DRep [],
                                DChoice 2
                                  (DSym ''expression_''
                                     (DChoice 0
                                        (DSym ''primary_expression_''
                                           (DChoice 2
                                              (DSym ''_literal_constant''
                                                 (DChoice 0
                                                    (DSym ''boolean_literal''
                                                       (DChoice 0 (DTok [] ''true'')))))))))])),
                       DSym ''_semi'' (DChoice 0 (DTok [] []))]),
                 DSym ''statement''
                   (DSeq
                      [DSym ''statement_''
                         (DChoice 1
                            (DSeq
                               [DRep [],
                                DChoice 2
                                  (DSym ''expression_''
                                     (DChoice 0
                                        (DSym ''primary_expression_''
                                           (DChoice 2
                                              (DSym ''_literal_constant''
                                                 (DChoice 0
                                                    (DSym ''boolean_literal''
                                                       (DChoice 1
                                                          (DTok [WS [CHR 0x0A]] ''false'')))))))))])),
                       DSym ''_semi'' (DChoice 0 (DTok [] []))])])])"



text \<open>The first string again, with only \<open>str\<close> taken as the identifier.\<close>

definition interp_short :: deriv where
  "interp_short =
     DSym ''expression_''
       (DChoice 0
          (DSym ''primary_expression_''
             (DChoice 3
                (DSym ''string_literal''
                   (DChoice 0
                      (DSym ''line_string_literal''
                         (DSeq
                            [DTok [] [CHR 0x22],
                             DRep
                               [DChoice 0
                                  (DSym ''line_string_content_''
                                     (DChoice 0 (DSym ''_line_str_text'' (DTok [] ''Sample '')))),
                                DChoice 1
                                  (DSym ''interpolation_''
                                     (DChoice 1
                                        (DSeq
                                           [DTok [] ''$'',
                                            DSym ''simple_identifier''
                                              (DChoice 0
                                                 (DSym ''lexical_identifier_''
                                                    (DChoice 0
                                                       (DSym ''_alpha_identifier''
                                                          (DTok [] ''str'')))))]))),
                                DChoice 0
                                  (DSym ''line_string_content_''
                                     (DChoice 0
                                        (DSym ''_line_str_text''
                                           (DTok [] ''ing.interpolation literal''))))],
                             DTok [] [CHR 0x22]])))))))"


section \<open>Facts about the rule table\<close>

text \<open>Looking a name up in the rule table, one comparison of leading characters at a time.\<close>

lemma str_neq_hd: "a \<noteq> b \<Longrightarrow> (a # as = b # bs) = False" by simp

lemma str_eq_hd: "(a # as = a # bs) = (as = bs)" by simp

lemma map_of_step: "map_of ((l, v) # ps) k = (if k = l then Some v else map_of ps k)" by simp

lemmas lookup_simps = map_of_step str_neq_hd str_eq_hd char.inject simp_thms if_True if_False
  list.distinct map_of.simps(1)

section \<open>The rules that the examples use\<close>

lemma rules_program: "rules ''program'' = Some program_rule"
  unfolding rules_def grammar_def by (simp only: lookup_simps)

lemma rules_statement: "rules ''statement'' = Some statement_rule"
  unfolding rules_def grammar_def by (simp only: lookup_simps)















lemma rules_statements: "rules ''statements'' = Some statements_rule"
  unfolding rules_def grammar_def by (simp only: lookup_simps)

lemma rules_statement_: "rules ''statement_'' = Some statement__rule"
  unfolding rules_def grammar_def by (simp only: lookup_simps)

lemma rules_enclosed_body: "rules ''enclosed_body'' = Some enclosed_body_rule"
  unfolding rules_def grammar_def by (simp only: lookup_simps)

lemma rules_h_semi: "rules ''_semi'' = Some h_semi_rule"
  unfolding rules_def grammar_def by (simp only: lookup_simps)

lemma rules_assignment: "rules ''assignment'' = Some assignment_rule"
  unfolding rules_def grammar_def by (simp only: lookup_simps)

lemma rules_assignment_value: "rules ''assignment_value'' = Some assignment_value_rule"
  unfolding rules_def grammar_def by (simp only: lookup_simps)

lemma rules_expression_: "rules ''expression_'' = Some expression__rule"
  unfolding rules_def grammar_def by (simp only: lookup_simps)

lemma rules_h_unary_expression: "rules ''_unary_expression'' = Some h_unary_expression_rule"
  unfolding rules_def grammar_def by (simp only: lookup_simps)


lemma rules_prefix_expression: "rules ''prefix_expression'' = Some prefix_expression_rule"
  unfolding rules_def grammar_def by (simp only: lookup_simps)

lemma rules_h_binary_expression: "rules ''_binary_expression'' = Some h_binary_expression_rule"
  unfolding rules_def grammar_def by (simp only: lookup_simps)


lemma rules_additive_expression: "rules ''additive_expression'' = Some additive_expression_rule"
  unfolding rules_def grammar_def by (simp only: lookup_simps)





lemma rules_comparison_expression: "rules ''comparison_expression'' = Some comparison_expression_rule"
  unfolding rules_def grammar_def by (simp only: lookup_simps)








lemma rules_primary_expression_: "rules ''primary_expression_'' = Some primary_expression__rule"
  unfolding rules_def grammar_def by (simp only: lookup_simps)

lemma rules_h_literal_constant: "rules ''_literal_constant'' = Some h_literal_constant_rule"
  unfolding rules_def grammar_def by (simp only: lookup_simps)

lemma rules_string_literal: "rules ''string_literal'' = Some string_literal_rule"
  unfolding rules_def grammar_def by (simp only: lookup_simps)

lemma rules_line_string_literal: "rules ''line_string_literal'' = Some line_string_literal_rule"
  unfolding rules_def grammar_def by (simp only: lookup_simps)

lemma rules_multi_line_string_literal: "rules ''multi_line_string_literal'' = Some multi_line_string_literal_rule"
  unfolding rules_def grammar_def by (simp only: lookup_simps)

lemma rules_line_string_content_: "rules ''line_string_content_'' = Some line_string_content__rule"
  unfolding rules_def grammar_def by (simp only: lookup_simps)

lemma rules_h_multi_line_string_content: "rules ''_multi_line_string_content'' = Some h_multi_line_string_content_rule"
  unfolding rules_def grammar_def by (simp only: lookup_simps)

lemma rules_interpolation_: "rules ''interpolation_'' = Some interpolation__rule"
  unfolding rules_def grammar_def by (simp only: lookup_simps)

lemma rules_lambda_literal: "rules ''lambda_literal'' = Some lambda_literal_rule"
  unfolding rules_def grammar_def by (simp only: lookup_simps)

lemma rules_h_function_literal: "rules ''_function_literal'' = Some h_function_literal_rule"
  unfolding rules_def grammar_def by (simp only: lookup_simps)

lemma rules_h_comparison_operator: "rules ''_comparison_operator'' = Some h_comparison_operator_rule"
  unfolding rules_def grammar_def by (simp only: lookup_simps)

lemma rules_h_additive_operator: "rules ''_additive_operator'' = Some h_additive_operator_rule"
  unfolding rules_def grammar_def by (simp only: lookup_simps)

lemma rules_h_prefix_unary_operator: "rules ''_prefix_unary_operator'' = Some h_prefix_unary_operator_rule"
  unfolding rules_def grammar_def by (simp only: lookup_simps)





lemma rules_simple_identifier: "rules ''simple_identifier'' = Some simple_identifier_rule"
  unfolding rules_def grammar_def by (simp only: lookup_simps)

lemma rules_comment: "rules ''comment'' = Some comment_rule"
  unfolding rules_def grammar_def by (simp only: lookup_simps)

lemma rules_real_literal: "rules ''real_literal'' = Some real_literal_rule"
  unfolding rules_def grammar_def by (simp only: lookup_simps)

lemma rules_integer_literal: "rules ''integer_literal'' = Some integer_literal_rule"
  unfolding rules_def grammar_def by (simp only: lookup_simps)

lemma rules_boolean_literal: "rules ''boolean_literal'' = Some boolean_literal_rule"
  unfolding rules_def grammar_def by (simp only: lookup_simps)

lemma rules_lexical_identifier_: "rules ''lexical_identifier_'' = Some lexical_identifier__rule"
  unfolding rules_def grammar_def by (simp only: lookup_simps)

lemma rules_h_alpha_identifier: "rules ''_alpha_identifier'' = Some h_alpha_identifier_rule"
  unfolding rules_def grammar_def by (simp only: lookup_simps)


lemma rules_h_line_str_text: "rules ''_line_str_text'' = Some h_line_str_text_rule"
  unfolding rules_def grammar_def by (simp only: lookup_simps)

lemma rules_h_line_str_escaped_char: "rules ''_line_str_escaped_char'' = Some h_line_str_escaped_char_rule"
  unfolding rules_def grammar_def by (simp only: lookup_simps)

lemma rules_h_multi_line_str_text: "rules ''_multi_line_str_text'' = Some h_multi_line_str_text_rule"
  unfolding rules_def grammar_def by (simp only: lookup_simps)

lemma rules_word: "rules word = Some h_alpha_identifier_rule"
  unfolding rules_def grammar_def word_def by (simp only: lookup_simps)

lemma rules_automatic_semicolon: "rules ''_automatic_semicolon'' = None"
  unfolding rules_def grammar_def by (simp only: lookup_simps)

section \<open>Facts about matching\<close>

text \<open>The defining equations of validity, tree and lexemes at each form of derivation.\<close>

lemma valid_Blank: "valid Blank DBlank"
  by (simp add: valid.simps)

lemma valid_Str: "valid (Str s) (DTok ex l) = (list_all extra_ok ex \<and> l = s)"
  by (simp add: valid.simps)

lemma valid_Pat: "valid (Pat p) (DTok ex l) = (list_all extra_ok ex \<and> rmatch p l)"
  by (simp add: valid.simps)

lemma valid_Token: "valid (Token r) (DTok ex l) = (list_all extra_ok ex \<and> rmatch (rx r) l)"
  by (simp add: valid.simps)

lemma valid_Sym: "rules n = Some r \<Longrightarrow> valid (Sym n) (DSym m d) = (m = n \<and> valid r d)"
  by (simp add: valid.simps)

lemma valid_Ext:
  "valid (Sym n) (DTok ex l) = (rules n = None \<and> n \<in> set externals \<and> list_all extra_ok ex)"
  by (simp add: valid.simps)

lemma valid_Seq: "valid (Seq rs) (DSeq ds) = list_all2 valid rs ds"
  by (simp add: valid.simps)

lemma valid_Choice: "valid (Choice rs) (DChoice i d) = (i < length rs \<and> valid (rs ! i) d)"
  by (simp add: valid.simps)

lemma valid_Repeat: "valid (Repeat r) (DRep ds) = list_all (valid r) ds"
  by (simp add: valid.simps)

lemma valid_Repeat1: "valid (Repeat1 r) (DRep ds) = (ds \<noteq> [] \<and> list_all (valid r) ds)"
  by (simp add: valid.simps)

lemmas valid_eval = valid_Blank valid_Str valid_Pat valid_Token valid_Sym valid_Ext valid_Seq
  valid_Choice valid_Repeat valid_Repeat1 valid.simps(10,11,12)

lemma tree_Str: "tree (Str s) (DTok ex l) = extras_cst ex @ [Node s False l []]"
  by (simp add: tree.simps)

lemma tree_Pat: "tree (Pat p) (DTok ex l) = extras_cst ex @ [Node [] False l []]"
  by (simp add: tree.simps)

lemma tree_Token: "tree (Token r) (DTok ex l) = extras_cst ex @ [Node [] False l []]"
  by (simp add: tree.simps)

lemma tree_Sym:
  "rules n = Some r \<Longrightarrow>
   tree (Sym n) (DSym m d) = (if terminal r then token_cst n d else wrap n d (tree r d))"
  by (simp add: tree.simps)

lemma tree_Ext: "tree (Sym n) (DTok ex l) = token_cst n (DTok ex l)"
  by (simp add: tree.simps)

lemma tree_Alias:
  "rules a = Some b \<Longrightarrow>
   tree (Alias (Sym a) n) (DSym m d) =
     (if terminal b then token_cst n d else [Node n True (text_of d) (tree b d)])"
  by (simp add: tree.simps)

lemma tree_Alias_Ext: "tree (Alias (Sym a) n) (DTok ex l) = token_cst n (DTok ex l)"
  by (simp add: tree.simps)

lemma tree_Seq: "tree (Seq rs) (DSeq ds) = concat (map2 tree rs ds)"
  by (simp add: tree.simps)

lemma tree_Choice:
  "tree (Choice rs) (DChoice i d) = (if i < length rs then tree (rs ! i) d else [])"
  by (simp add: tree.simps)

lemma tree_Repeat: "tree (Repeat r) (DRep ds) = concat (map (tree r) ds)"
  by (simp add: tree.simps)

lemma tree_Repeat1: "tree (Repeat1 r) (DRep ds) = concat (map (tree r) ds)"
  by (simp add: tree.simps)

lemmas tree_eval = tree.simps(1) tree_Str tree_Pat tree_Token tree_Sym tree_Ext tree_Alias
  tree_Alias_Ext tree_Seq tree_Choice tree_Repeat tree_Repeat1 tree.simps(11,12)
  token_cst_def wrap_def hidden_def extras_cst_def text_of_def pad_def

lemma lexemes_Sym:
  "rules n = Some r \<Longrightarrow> lexemes (Sym n) (DSym m d) = lexemes r d"
  by (simp add: lexemes.simps)

lemma lexemes_Ext:
  "lexemes (Sym n) (DTok ex l) = [(None, concat (map extra_text ex), l)]"
  by (simp add: lexemes.simps)

lemma lexemes_Seq: "lexemes (Seq rs) (DSeq ds) = concat (map2 lexemes rs ds)"
  by (simp add: lexemes.simps)

lemma lexemes_Choice:
  "lexemes (Choice rs) (DChoice i d) = (if i < length rs then lexemes (rs ! i) d else [])"
  by (simp add: lexemes.simps)

lemma lexemes_Repeat: "lexemes (Repeat r) (DRep ds) = concat (map (lexemes r) ds)"
  by (simp add: lexemes.simps)

lemma lexemes_Repeat1: "lexemes (Repeat1 r) (DRep ds) = concat (map (lexemes r) ds)"
  by (simp add: lexemes.simps)

lemmas lexemes_eval = lexemes.simps(1,2,3,4) lexemes_Sym lexemes_Ext lexemes_Seq lexemes_Choice
  lexemes_Repeat lexemes_Repeat1 lexemes.simps(10,11,12)

text \<open>The levels of the precedence table.\<close>

lemma prec_levels_eval: "prec_levels = [16, 15, 14, 13, 12, 11, 10, 9, 8, 7, 6, 5, 4, 3, 2, 1, 0]"
  by (simp add: prec_levels_def PREC_def)

lemma prec_groups_eval: "prec_groups =
   [(16, [''POSTFIX'']), (15, [''PREFIX'']), (14, [''TYPE_RHS'']), (13, [''AS'']),
    (12, [''MULTIPLICATIVE'']), (11, [''ADDITIVE'']), (10, [''RANGE'']), (9, [''INFIX'']),
    (8, [''ELVIS'']), (7, [''CHECK'']), (6, [''COMPARISON'']), (5, [''EQUALITY'']),
    (4, [''CONJUNCTION'']), (3, [''DISJUNCTION'']), (2, [''SPREAD'', ''SIMPLE_USER_TYPE'']),
    (1, [''VAR_DECL'', ''ASSIGNMENT'', ''BLOCK'']),
    (0, [''LAMBDA_LITERAL'', ''RETURN_OR_THROW'', ''COMMENT''])]"
  unfolding prec_groups_def prec_levels_eval by (simp add: PREC_def)

text \<open>A match never extends beyond the text, and the unfolding of an iteration.\<close>

lemma mlen_le: "n \<in> set (mlen r s) \<Longrightarrow> n \<le> length s"
proof (induction r s arbitrary: n rule: mlen.induct)
  case (1 s)
  then show ?case by simp
next
  case (2 cs s)
  then show ?case by (cases s) (simp_all split: if_splits)
next
  case (3 cs s)
  then show ?case by (cases s) (simp_all split: if_splits)
next
  case (4 a b s)
  from "4.prems" obtain k m where k: "k \<in> set (mlen a s)" and m: "m \<in> set (mlen b (drop k s))"
    and n: "n = k + m" by auto
  from "4.IH"(1)[OF k] "4.IH"(2)[OF k m] n show ?case by simp
next
  case (5 a b s)
  then show ?case by auto
next
  case (6 a s)
  show ?case
  proof (cases "n = 0")
    case True then show ?thesis by simp
  next
    case False
    with "6.prems" obtain k m where k: "k \<in> set (mlen a s)" "0 < k" "k \<le> length s"
      and m: "m \<in> set (mlen (RStar a) (drop k s))" and n: "n = k + m"
      by (subst (asm) mlen.simps(6)) auto
    have "k \<in> set (filter (\<lambda>n. 0 < n \<and> n \<le> length s) (mlen a s))" using k by simp
    from "6.IH"(2)[OF this m] n k show ?thesis by simp
  qed
qed

lemma mlen_RSeqI: "n \<in> set (mlen a s) \<Longrightarrow> m \<in> set (mlen b (drop n s)) \<Longrightarrow> n + m \<in> set (mlen (RSeq a b) s)"
  by auto

lemma mlen_star_Nil: "mlen (RStar a) [] = [0]"
  by (subst mlen.simps(6)) simp

lemma mlen_star_Cons: "mlen (RStar a) (c # t) =
     0 # concat (map (\<lambda>n. map (\<lambda>m. n + m) (mlen (RStar a) (drop n (c # t))))
                     (filter (\<lambda>n. 0 < n \<and> n \<le> Suc (length t)) (mlen a (c # t))))"
  by (subst mlen.simps(6)) simp

lemma zero_in_star: "0 \<in> set (mlen (RStar a) s)"
  by (subst mlen.simps(6)) simp

lemma star_One_all: "set s \<subseteq> set cs \<Longrightarrow> length s \<in> set (mlen (RStar (One cs)) s)"
proof (induction s)
  case Nil
  then show ?case by (simp add: mlen_star_Nil)
next
  case (Cons c t)
  then have "length t \<in> set (mlen (RStar (One cs)) t)" by simp
  with Cons.prems show ?case by (simp add: mlen_star_Cons)
qed

lemma plus_One_all: "s \<noteq> [] \<Longrightarrow> set s \<subseteq> set cs \<Longrightarrow> length s \<in> set (mlen (RPlus (One cs)) s)"
proof -
  assume ne: "s \<noteq> []" and sub: "set s \<subseteq> set cs"
  then obtain c t where s: "s = c # t" by (cases s) auto
  have 1: "1 \<in> set (mlen (One cs) s)" using s sub by simp
  have 2: "length t \<in> set (mlen (RStar (One cs)) (drop 1 s))" using s sub star_One_all[of t cs] by simp
  from mlen_RSeqI[OF 1 2] show ?thesis by (simp add: RPlus_def s)
qed

lemma fold_max_ge: "fold max ns (n::nat) \<ge> n" 
proof (induction ns arbitrary: n)
  case Nil then show ?case by simp
next
  case (Cons a ns)
  have "n \<le> max a n" by simp
  also have "max a n \<le> fold max ns (max a n)" by (rule Cons.IH)
  finally show ?case by simp
qed

lemma fold_max_le: "n \<le> k \<Longrightarrow> \<forall>x\<in>set ns. x \<le> k \<Longrightarrow> fold max ns (n::nat) \<le> k" 
  by (induction ns arbitrary: n) auto

lemma fold_max_mem: "k \<in> set ns \<Longrightarrow> fold max ns (n::nat) \<ge> k" 
  by (induction ns arbitrary: n) (auto intro: order_trans[OF _ fold_max_ge])

lemma longest_full: "rmatch r s \<Longrightarrow> longest r s = Some (length s)"
proof -
  assume m: "rmatch r s"
  then obtain n ns where e: "mlen r s = n # ns" by (cases "mlen r s") (auto simp: rmatch_def)
  have le: "n \<le> length s" "\<forall>x\<in>set ns. x \<le> length s" using mlen_le[of _ r s] e by auto
  have "length s = n \<or> length s \<in> set ns" using m e by (auto simp: rmatch_def)
  then have "length s \<le> fold max ns n" using fold_max_ge[of n ns] fold_max_mem[of "length s" ns n] by auto
  with fold_max_le[OF le] show ?thesis by (simp add: longest_def e)
qed

lemmas tok_defs = optional_def sep1_def RPlus_def ROpt_def DEC_DIGITS_def HEX_DIGITS_def BIN_DIGITS_def
  REAL_EXPONENT_def digit_def nonzero_digit_def lower_def upper_def lit_def rmatch_def
  mlen_star_Nil mlen_star_Cons

text \<open>A non-empty match starts with a character that the expression can start with.\<close>

lemma mlen_starts:
  "n \<in> set (mlen r s) \<Longrightarrow>
   (n = 0 \<and> nullable r) \<or> (0 < n \<and> (\<exists>c t. s = c # t \<and> starts r c))"
proof (induction r s arbitrary: n rule: mlen.induct)
  case (1 s)
  then show ?case by simp
next
  case (2 cs s)
  then show ?case by (cases s) (simp_all split: if_splits)
next
  case (3 cs s)
  then show ?case by (cases s) (simp_all split: if_splits)
next
  case (4 a b s)
  from "4.prems" obtain k m where k: "k \<in> set (mlen a s)" and m: "m \<in> set (mlen b (drop k s))"
    and n: "n = k + m" by auto
  show ?case
  proof (cases "k = 0")
    case True
    with "4.IH"(1)[OF k] have na: "nullable a" by simp
    from "4.IH"(2)[OF k m] True n na show ?thesis by auto
  next
    case False
    with "4.IH"(1)[OF k] n show ?thesis by auto
  qed
next
  case (5 a b s)
  then show ?case by auto
next
  case (6 a s)
  show ?case
  proof (cases "n = 0")
    case True then show ?thesis by simp
  next
    case False
    with "6.prems" obtain k m where k: "k \<in> set (mlen a s)" "0 < k" "k \<le> length s"
      and m: "m \<in> set (mlen (RStar a) (drop k s))" and n: "n = k + m"
      by (subst (asm) mlen.simps(6)) auto
    from "6.IH"(1)[OF k(1)] k(2) False show ?thesis by auto
  qed
qed

lemma rmatch_starts:
  assumes "rmatch r s" "\<not> nullable r"
  shows "\<exists>c t. s = c # t \<and> starts r c"
  using mlen_starts[of "length s" r s] assms by (auto simp: rmatch_def)

lemma numeric_literal_starts:
  assumes "r \<in> {real_literal_rule, integer_literal_rule, hex_literal_rule, bin_literal_rule}"
  shows "\<not> nullable (rx r) \<and> \<not> starts (rx r) CHR ''+'' \<and> \<not> starts (rx r) CHR ''-''"
  using assms
  by (auto simp: real_literal_rule_def integer_literal_rule_def hex_literal_rule_def
      bin_literal_rule_def optional_def sep1_def RPlus_def DEC_DIGITS_def HEX_DIGITS_def
      BIN_DIGITS_def REAL_EXPONENT_def digit_def nonzero_digit_def lit_def)

lemma numeric_literal_unsigned:
  assumes "r \<in> {real_literal_rule, integer_literal_rule, hex_literal_rule, bin_literal_rule}"
    and "rmatch (rx r) s"
  shows "s \<noteq> [] \<and> hd s \<noteq> CHR ''+'' \<and> hd s \<noteq> CHR ''-''"
  using rmatch_starts[OF assms(2)] numeric_literal_starts[OF assms(1)] by auto

text \<open>Every non-empty string of decimal digits is an integer literal.\<close>

lemma rx_integer_literal:
  "rx integer_literal_rule =
     RSeq (RAlt (One nonzero_digit) (RAlt Eps (One [])))
       (RSeq (RSeq (RPlus (One digit))
                (RSeq (RStar (RSeq (RPlus (One ''_'')) (RSeq (RPlus (One digit)) Eps))) Eps)) Eps)"
  by (simp add: integer_literal_rule_def optional_def DEC_DIGITS_def sep1_def)

lemma digits_match_integer_literal:
  assumes "s \<noteq> []" "set s \<subseteq> set digit"
  shows "rmatch (rx integer_literal_rule) s"
proof -
  have a: "0 \<in> set (mlen (RAlt (One nonzero_digit) (RAlt Eps (One []))) s)" by simp
  have b: "length s \<in> set (mlen (RPlus (One digit)) s)" by (rule plus_One_all[OF assms])
  have c: "0 \<in> set (mlen (RSeq (RStar (RSeq (RPlus (One ''_'')) (RSeq (RPlus (One digit)) Eps))) Eps)
                  (drop (length s) s))"
    using mlen_RSeqI[OF zero_in_star, of 0 Eps] by simp
  have d: "length s + 0 \<in> set (mlen (RSeq (RPlus (One digit))
                (RSeq (RStar (RSeq (RPlus (One ''_'')) (RSeq (RPlus (One digit)) Eps))) Eps)) s)"
    by (rule mlen_RSeqI[OF b c])
  have e: "length s + 0 + 0 \<in> set (mlen (RSeq (RSeq (RPlus (One digit))
                (RSeq (RStar (RSeq (RPlus (One ''_'')) (RSeq (RPlus (One digit)) Eps))) Eps)) Eps) s)"
    by (rule mlen_RSeqI[OF d]) simp
  have "0 + (length s + 0 + 0) \<in> set (mlen (rx integer_literal_rule) s)"
    unfolding rx_integer_literal by (rule mlen_RSeqI[OF a]) (use e in simp)
  then show ?thesis by (simp add: rmatch_def)
qed

lemma terminal_integer_literal: "terminal integer_literal_rule"
  by (simp add: integer_literal_rule_def)

section \<open>The leaves of a tree cover its text in order\<close>




lemma leaves_append: "leaves (a @ b) = leaves a @ leaves b"
  by (simp add: leaves_def)

lemma leaves_Nil: "leaves [] = []"
  by (simp add: leaves_def)

lemma leaves_concat: "leaves (concat xss) = concat (map leaves xss)"
  by (induction xss) (simp_all add: leaves_Nil leaves_append)












section \<open>The example derivations evaluated\<close>

lemmas eval_defs = optional_def sep1_def optional_with_placeholder_def tok_defs extra_ok_def
  whitespace_def line_terminators_def externals_def rules_automatic_semicolon

lemmas lex_defs = lexeme_def scan_rx_def word_rx_def rules_word h_alpha_identifier_rule_def longest_def


lemmas real_plain_rules =
    rules_expression_ rules_primary_expression_ rules_h_literal_constant rules_real_literal
    expression__rule_def primary_expression__rule_def h_literal_constant_rule_def
    real_literal_rule_def

lemma real_plain_valid: "valid (Sym ''expression_'') real_plain"
  by (simp add: real_plain_def real_plain_rules valid_eval eval_defs)

lemma real_plain_yield: "yield real_plain = ''4.3f''"
  by (simp add: real_plain_def)

lemma real_plain_tree:
  "tree (Sym ''expression_'') real_plain =
    [Node ''expression_'' True ''4.3f''
       [Node ''primary_expression_'' True ''4.3f'' [Node ''real_literal'' True ''4.3f'' []]]]"
  by (simp add: real_plain_def real_plain_rules tree_eval eval_defs)

lemma real_plain_munch: "munch (lexemes (Sym ''expression_'') real_plain)"
  by (simp add: real_plain_def real_plain_rules lexemes_eval eval_defs lex_defs)

lemmas real_plus_rules =
    rules_expression_ rules_h_unary_expression rules_prefix_expression
    rules_h_prefix_unary_operator rules_primary_expression_ rules_h_literal_constant
    rules_real_literal expression__rule_def h_unary_expression_rule_def
    prefix_expression_rule_def h_prefix_unary_operator_rule_def primary_expression__rule_def
    h_literal_constant_rule_def real_literal_rule_def

lemma real_plus_valid: "valid (Sym ''expression_'') real_plus"
  by (simp add: real_plus_def real_plus_rules valid_eval eval_defs)

lemma real_plus_yield: "yield real_plus = ''+53.9e-3F''"
  by (simp add: real_plus_def)

lemma real_plus_tree:
  "tree (Sym ''expression_'') real_plus =
    [Node ''expression_'' True ''+53.9e-3F''
       [Node ''prefix_expression'' True ''+53.9e-3F''
          [Node ''+'' False ''+'' [],
           Node ''expression_'' True ''53.9e-3F''
             [Node ''primary_expression_'' True ''53.9e-3F''
                [Node ''real_literal'' True ''53.9e-3F'' []]]]]]"
  by (simp add: real_plus_def real_plus_rules tree_eval eval_defs)

lemma real_plus_munch: "munch (lexemes (Sym ''expression_'') real_plus)"
  by (simp add: real_plus_def real_plus_rules lexemes_eval eval_defs lex_defs)

lemmas real_minus_rules =
    rules_expression_ rules_h_unary_expression rules_prefix_expression
    rules_h_prefix_unary_operator rules_primary_expression_ rules_h_literal_constant
    rules_real_literal expression__rule_def h_unary_expression_rule_def
    prefix_expression_rule_def h_prefix_unary_operator_rule_def primary_expression__rule_def
    h_literal_constant_rule_def real_literal_rule_def

lemma real_minus_valid: "valid (Sym ''expression_'') real_minus"
  by (simp add: real_minus_def real_minus_rules valid_eval eval_defs)

lemma real_minus_yield: "yield real_minus = ''-23.434''"
  by (simp add: real_minus_def)

lemma real_minus_tree:
  "tree (Sym ''expression_'') real_minus =
    [Node ''expression_'' True ''-23.434''
       [Node ''prefix_expression'' True ''-23.434''
          [Node ''-'' False ''-'' [],
           Node ''expression_'' True ''23.434''
             [Node ''primary_expression_'' True ''23.434''
                [Node ''real_literal'' True ''23.434'' []]]]]]"
  by (simp add: real_minus_def real_minus_rules tree_eval eval_defs)

lemma real_minus_munch: "munch (lexemes (Sym ''expression_'') real_minus)"
  by (simp add: real_minus_def real_minus_rules lexemes_eval eval_defs lex_defs)

















lemmas cmp_right_rules =
    rules_expression_ rules_h_binary_expression rules_comparison_expression
    rules_primary_expression_ rules_simple_identifier rules_lexical_identifier_
    rules_h_alpha_identifier rules_h_comparison_operator expression__rule_def
    h_binary_expression_rule_def comparison_expression_rule_def primary_expression__rule_def
    simple_identifier_rule_def lexical_identifier__rule_def h_alpha_identifier_rule_def
    h_comparison_operator_rule_def



lemma cmp_right_tree:
  "tree (Sym ''expression_'') cmp_right =
    [Node ''expression_'' True (''foo < b > c'')
       [Node ''comparison_expression'' True (''foo < b > c'')
          [Node ''expression_'' True ''foo''
             [Node ''primary_expression_'' True ''foo''
                [Node ''simple_identifier'' True ''foo''
                   [Node ''lexical_identifier_'' True ''foo'' []]]],
           Node ''<'' False ''<'' [],
           Node ''expression_'' True (''b > c'')
             [Node ''comparison_expression'' True (''b > c'')
                [Node ''expression_'' True ''b''
                   [Node ''primary_expression_'' True ''b''
                      [Node ''simple_identifier'' True ''b''
                         [Node ''lexical_identifier_'' True ''b'' []]]],
                 Node ''>'' False ''>'' [],
                 Node ''expression_'' True ''c''
                   [Node ''primary_expression_'' True ''c''
                      [Node ''simple_identifier'' True ''c''
                         [Node ''lexical_identifier_'' True ''c'' []]]]]]]]]"
  by (simp add: cmp_right_def cmp_right_rules tree_eval eval_defs)

lemma cmp_right_munch: "munch (lexemes (Sym ''expression_'') cmp_right)"
  by (simp add: cmp_right_def cmp_right_rules lexemes_eval eval_defs lex_defs)








lemmas sub_left_rules =
    rules_expression_ rules_h_binary_expression rules_additive_expression
    rules_primary_expression_ rules_simple_identifier rules_lexical_identifier_
    rules_h_alpha_identifier rules_h_additive_operator expression__rule_def
    h_binary_expression_rule_def additive_expression_rule_def primary_expression__rule_def
    simple_identifier_rule_def lexical_identifier__rule_def h_alpha_identifier_rule_def
    h_additive_operator_rule_def




lemma sub_left_munch: "munch (lexemes (Sym ''expression_'') sub_left)"
  by (simp add: sub_left_def sub_left_rules lexemes_eval eval_defs lex_defs)


lemmas sub_right_rules =
    rules_expression_ rules_h_binary_expression rules_additive_expression
    rules_primary_expression_ rules_simple_identifier rules_lexical_identifier_
    rules_h_alpha_identifier rules_h_additive_operator expression__rule_def
    h_binary_expression_rule_def additive_expression_rule_def primary_expression__rule_def
    simple_identifier_rule_def lexical_identifier__rule_def h_alpha_identifier_rule_def
    h_additive_operator_rule_def



lemma sub_right_tree:
  "tree (Sym ''expression_'') sub_right =
    [Node ''expression_'' True (''a - b - c'')
       [Node ''additive_expression'' True (''a - b - c'')
          [Node ''expression_'' True ''a''
             [Node ''primary_expression_'' True ''a''
                [Node ''simple_identifier'' True ''a''
                   [Node ''lexical_identifier_'' True ''a'' []]]],
           Node ''-'' False ''-'' [],
           Node ''expression_'' True (''b - c'')
             [Node ''additive_expression'' True (''b - c'')
                [Node ''expression_'' True ''b''
                   [Node ''primary_expression_'' True ''b''
                      [Node ''simple_identifier'' True ''b''
                         [Node ''lexical_identifier_'' True ''b'' []]]],
                 Node ''-'' False ''-'' [],
                 Node ''expression_'' True ''c''
                   [Node ''primary_expression_'' True ''c''
                      [Node ''simple_identifier'' True ''c''
                         [Node ''lexical_identifier_'' True ''c'' []]]]]]]]]"
  by (simp add: sub_right_def sub_right_rules tree_eval eval_defs)

lemma sub_right_munch: "munch (lexemes (Sym ''expression_'') sub_right)"
  by (simp add: sub_right_def sub_right_rules lexemes_eval eval_defs lex_defs)


lemmas neg_neg_rules =
    rules_expression_ rules_h_unary_expression rules_prefix_expression
    rules_h_prefix_unary_operator rules_primary_expression_ rules_simple_identifier
    rules_lexical_identifier_ rules_h_alpha_identifier expression__rule_def
    h_unary_expression_rule_def prefix_expression_rule_def h_prefix_unary_operator_rule_def
    primary_expression__rule_def simple_identifier_rule_def lexical_identifier__rule_def
    h_alpha_identifier_rule_def




lemma neg_neg_munch: "munch (lexemes (Sym ''expression_'') neg_neg)"
  by (simp add: neg_neg_def neg_neg_rules lexemes_eval eval_defs lex_defs)


lemmas lambda_empty_rules =
    rules_expression_ rules_primary_expression_ rules_h_function_literal rules_lambda_literal
    expression__rule_def primary_expression__rule_def h_function_literal_rule_def
    lambda_literal_rule_def

lemma lambda_empty_valid: "valid (Sym ''expression_'') lambda_empty"
  by (simp add: lambda_empty_def lambda_empty_rules valid_eval eval_defs)

lemma lambda_empty_yield: "yield lambda_empty = ''{ }''"
  by (simp add: lambda_empty_def)

lemma lambda_empty_tree:
  "tree (Sym ''expression_'') lambda_empty =
    [Node ''expression_'' True (''{ }'')
       [Node ''primary_expression_'' True (''{ }'')
          [Node ''lambda_literal'' True (''{ }'')
             [Node ''{'' False ''{'' [],
              Node ''}'' False ''}'' []]]]]"
  by (simp add: lambda_empty_def lambda_empty_rules tree_eval eval_defs)

lemmas two_bools_rules =
    rules_program rules_statement rules_statement_ rules_expression_ rules_primary_expression_
    rules_h_literal_constant rules_boolean_literal rules_h_semi program_rule_def
    statement_rule_def statement__rule_def expression__rule_def primary_expression__rule_def
    h_literal_constant_rule_def boolean_literal_rule_def h_semi_rule_def

lemma two_bools_valid: "valid (Sym ''program'') two_bools"
  by (simp add: two_bools_def two_bools_rules valid_eval eval_defs)













lemmas interp_short_rules =
    rules_expression_ rules_primary_expression_ rules_string_literal rules_line_string_literal
    rules_line_string_content_ rules_h_line_str_text rules_interpolation_
    rules_simple_identifier rules_lexical_identifier_ rules_h_alpha_identifier
    expression__rule_def primary_expression__rule_def string_literal_rule_def
    line_string_literal_rule_def line_string_content__rule_def h_line_str_text_rule_def
    interpolation__rule_def simple_identifier_rule_def lexical_identifier__rule_def
    h_alpha_identifier_rule_def



lemma interp_short_tree:
  "tree (Sym ''expression_'') interp_short =
    [Node ''expression_'' True (([CHR 0x22] @ ''Sample $string.interpolation literal'' @ [CHR 0x22]))
       [Node ''primary_expression_'' True (([CHR 0x22] @ ''Sample $string.interpolation literal'' @ [CHR 0x22]))
          [Node ''string_literal'' True (([CHR 0x22] @ ''Sample $string.interpolation literal'' @ [CHR 0x22]))
             [Node ''line_string_literal'' True (([CHR 0x22] @ ''Sample $string.interpolation literal'' @ [CHR 0x22]))
                [Node [CHR 0x22] False ([CHR 0x22]) [],
                 Node ''line_string_content_'' True (''Sample '') [],
                 Node ''interpolation_'' True ''$str''
                   [Node ''$'' False ''$'' [],
                    Node ''interpolated_identifier'' True ''str''
                      [Node ''lexical_identifier_'' True ''str'' []]],
                 Node ''line_string_content_'' True (''ing.interpolation literal'') [],
                 Node [CHR 0x22] False ([CHR 0x22]) []]]]]]"
  by (simp add: interp_short_def interp_short_rules tree_eval eval_defs)







section \<open>Inversion of validity\<close>

lemmas all_rule_defs =
    program_rule_def statement_rule_def shebang_line_rule_def file_annotation_rule_def
    package_header_rule_def import_rule_def import_alias_rule_def top_level_object_rule_def
    type_alias_rule_def declaration__rule_def class_declaration_rule_def
    primary_constructor_rule_def class_body_rule_def h_class_parameters_rule_def
    class_parameter_rule_def delegation_specifiers__rule_def delegation_specifier_rule_def
    constructor_invocation_rule_def h_annotated_delegation_specifier_rule_def
    explicit_delegation_rule_def type_parameters_rule_def type_parameter_rule_def
    type_constraints_rule_def type_constraint_rule_def class_member_declarations__rule_def
    h_class_member_declaration_rule_def anonymous_initializer_rule_def
    companion_object_rule_def function_value_parameters__rule_def
    function_value_parameter__rule_def receiver_type__rule_def function_rule_def
    function_body_rule_def single_variable_declaration_rule_def variable_declaration_rule_def
    property_assignment_rule_def property_assignment_value_rule_def property_rule_def
    property_delegate_rule_def getter_rule_def setter_rule_def
    parameters_with_optional_type_rule_def parameter_with_optional_type_rule_def
    parameter__rule_def object_declaration_rule_def secondary_constructor_rule_def
    constructor_delegation_call_rule_def enum_class_body_rule_def h_enum_entries_rule_def
    enum_entry_rule_def h_type_rule_def type_reference__rule_def nullable_type_rule_def
    h_quest_rule_def user_type_rule_def h_simple_user_type_rule_def type_projection_rule_def
    type_projection_modifiers_rule_def h_type_projection_modifier_rule_def
    function_type_rule_def function_type_parameters_rule_def parenthesized_type_rule_def
    parenthesized_user_type_rule_def statements_rule_def statement__rule_def label_rule_def
    control_structure_body_rule_def enclosed_body_rule_def loop_statement__rule_def
    for_rule_def for_each_clause_rule_def while_rule_def while_clause_rule_def
    do_while_statement_rule_def h_semi_rule_def h_semis_rule_def assignment_rule_def
    assignment_value_rule_def expression__rule_def h_unary_expression_rule_def
    postfix_expression_rule_def call_rule_def indexing_expression_rule_def
    navigation_expression_rule_def prefix_expression_rule_def as_expression_rule_def
    spread_expression_rule_def h_binary_expression_rule_def multiplicative_expression_rule_def
    additive_expression_rule_def range_expression_rule_def infix_expression_rule_def
    elvis_expression_rule_def check_expression_rule_def comparison_expression_rule_def
    equality_expression_rule_def conjunction_expression_rule_def
    disjunction_expression_rule_def indexing_suffix_rule_def navigation_suffix_rule_def
    call_suffix_rule_def annotated_lambda_rule_def type_arguments_rule_def
    value_arguments_rule_def value_argument_rule_def primary_expression__rule_def
    parenthesized_expression_rule_def collection_literal_rule_def h_literal_constant_rule_def
    string_literal_rule_def line_string_literal_rule_def multi_line_string_literal_rule_def
    line_string_content__rule_def line_string_expression_rule_def
    h_multi_line_string_content_rule_def interpolation__rule_def lambda_literal_rule_def
    multi_variable_declaration_rule_def lambda_parameters_rule_def h_lambda_parameter_rule_def
    anonymous_function_rule_def h_function_literal_rule_def object_literal_rule_def
    this_expression_rule_def super_expression_rule_def if_rule_def if_clause_rule_def
    else_if_clause_rule_def else_clause_rule_def when_subject_rule_def
    when_expression_rule_def when_entry_rule_def when_condition_rule_def range_test_rule_def
    type_test_rule_def try_rule_def try_clause_rule_def catch_rule_def finally_clause_rule_def
    jump_expression_rule_def throw_rule_def return_rule_def callable_reference_rule_def
    h_assignment_and_operator_rule_def h_equality_operator_rule_def
    h_comparison_operator_rule_def h_in_operator_rule_def h_is_operator_rule_def
    h_additive_operator_rule_def h_multiplicative_operator_rule_def h_as_operator_rule_def
    h_prefix_unary_operator_rule_def h_postfix_unary_operator_rule_def
    h_member_access_operator_rule_def h_safe_nav_rule_def h_indexing_suffix_rule_def
    postfix_unary_suffix__rule_def h_postfix_unary_expression_rule_def
    directly_assignable_expression_rule_def modifiers_rule_def parameter_modifiers_rule_def
    h_modifier_rule_def type_modifiers_rule_def h_type_modifier_rule_def
    class_modifier_rule_def member_modifier_rule_def visibility_modifier_rule_def
    variance_modifier_rule_def type_parameter_modifiers_rule_def
    h_type_parameter_modifier_rule_def function_modifier_rule_def property_modifier_rule_def
    inheritance_modifier_rule_def parameter_modifier_rule_def reification_modifier_rule_def
    platform_modifier_rule_def annotation_rule_def h_single_annotation_rule_def
    h_multi_annotation_rule_def use_site_target_rule_def h_unescaped_annotation_rule_def
    simple_identifier_rule_def identifier_rule_def comment_rule_def h_return_at_rule_def
    h_continue_at_rule_def h_break_at_rule_def h_this_at_rule_def h_super_at_rule_def
    h_not_is_rule_def h_not_in_rule_def real_literal_rule_def integer_literal_rule_def
    hex_literal_rule_def bin_literal_rule_def unsigned_literal_rule_def long_literal_rule_def
    boolean_literal_rule_def character_literal_rule_def lexical_identifier__rule_def
    h_alpha_identifier_rule_def h_backtick_identifier_rule_def
    h_uni_character_literal_rule_def h_escaped_identifier_rule_def escape_seq__rule_def
    h_line_str_text_rule_def h_line_str_escaped_char_rule_def h_multi_line_str_text_rule_def

lemma valid_SymE:
  assumes "rules n = Some r" "valid (Sym n) d"
  obtains d' where "d = DSym n d'" "valid r d'"
  using assms by (cases d) (auto simp: valid.simps)





section \<open>A call needs an opening bracket\<close>















section \<open>Fields bound by the placeholder helper\<close>

lemma placeholder_field:
  assumes "valid (optional_with_placeholder f r) d"
  shows "\<exists>kids. tree (optional_with_placeholder f r) d = [FieldOf f kids]"
proof -
  from assms obtain i d' where d: "d = DChoice i d'" and i: "i < 2"
    by (cases d) (auto simp: optional_with_placeholder_def valid.simps)
  from i have "i = 0 \<or> i = 1" by auto
  with d show ?thesis by (auto simp: optional_with_placeholder_def tree.simps)
qed

lemma placeholder_blank:
  "valid (optional_with_placeholder f r) (DChoice 1 DBlank) \<and>
   tree (optional_with_placeholder f r) (DChoice 1 DBlank) = [FieldOf f []]"
  by (simp add: optional_with_placeholder_def valid.simps tree.simps)

lemma program_fields:
  assumes "valid (Sym ''program'') d"
  shows "\<exists>t pre k1 k2. tree (Sym ''program'') d =
           [Node ''program'' True t (pre @ [FieldOf ''import_list'' k1, FieldOf ''statement_list'' k2])]"
proof -
  from assms obtain d0 where d: "d = DSym ''program'' d0" and v: "valid program_rule d0"
    by (rule valid_SymE[OF rules_program])
  from v obtain d1 d2 d3 d4 d5 where d0: "d0 = DSeq [d1, d2, d3, d4, d5]"
    and v4: "valid (optional_with_placeholder ''import_list'' (Repeat (Sym ''import''))) d4"
    and v5: "valid (optional_with_placeholder ''statement_list'' (Repeat (Sym ''statement''))) d5"
    by (cases d0) (auto simp: program_rule_def valid.simps list_all2_Cons1)
  from placeholder_field[OF v4] obtain k1 where k1:
    "tree (optional_with_placeholder ''import_list'' (Repeat (Sym ''import''))) d4
       = [FieldOf ''import_list'' k1]" ..
  from placeholder_field[OF v5] obtain k2 where k2:
    "tree (optional_with_placeholder ''statement_list'' (Repeat (Sym ''statement''))) d5
       = [FieldOf ''statement_list'' k2]" ..
  have "tree (Sym ''program'') d =
     [Node ''program'' True (text_of d0)
       ((tree (optional (Sym ''shebang_line'')) d1 @ tree (Repeat (Sym ''file_annotation'')) d2 @
         tree (optional (Sym ''package_header'')) d3) @
        [FieldOf ''import_list'' k1, FieldOf ''statement_list'' k2])]"
    using k1 k2
    by (simp add: d d0 tree_Sym[OF rules_program] program_rule_def tree_Seq wrap_def hidden_def)
  then show ?thesis by blast
qed

lemma all_placeholders:
  "concat (map (\<lambda>(n, r). map (Pair n) (placeholders r)) grammar) =
     [(''program'', ''import_list''),
      (''program'', ''statement_list''),
      (''class_declaration'', ''implements_list_optional''),
      (''class_declaration'', ''implements_list_optional''),
      (''class_body'', ''class_member_list''),
      (''function_value_parameters_'', ''parameter_list''),
      (''function'', ''type_optional''),
      (''single_variable_declaration'', ''type_optional''),
      (''property_assignment'', ''assignment_value_list_optional''),
      (''enum_class_body'', ''enum_member_list''),
      (''enclosed_body'', ''statement_list''),
      (''value_arguments'', ''argument_list''),
      (''if'', ''else_if_clause_list''),
      (''if'', ''else_clause_optional''),
      (''try'', ''catch_list''),
      (''try'', ''finally_clause_optional''),
      (''return'', ''return_value_optional'')]"
  unfolding grammar_def
  by (simp add: optional_with_placeholder_def optional_def sep1_def DEC_DIGITS_def HEX_DIGITS_def
      BIN_DIGITS_def REAL_EXPONENT_def all_rule_defs)

section \<open>Interpolation and string text\<close>






section \<open>The precedence levels (claim C3)\<close>

text \<open>
  Claim C3, as stated: the precedence table defines exactly sixteen levels.  The
  table holds the levels 16 down to 0, which are seventeen, so the count of
  sixteen fails.
\<close>

theorem C3_sixteen_levels_counterexample: "length prec_levels \<noteq> 16"
  by (simp add: prec_levels_eval)

text \<open>
  Claim C3, amended: the precedence table defines exactly seventeen distinct
  levels, 16 down to 0, ordered from the postfix operators (tightest) through
  prefix, type right-hand side, \<open>as\<close>, multiplicative, additive, range, infix call,
  elvis, checks, comparison, equality, conjunction, disjunction,
  spread and simple user type, variable declaration and assignment and block, down
  to lambda literal, return-or-throw and comment (loosest); each name has the level
  of its place in that order.
\<close>

theorem C3_precedence_levels:
  "length prec_levels = 17 \<and>
   prec_levels = [16, 15, 14, 13, 12, 11, 10, 9, 8, 7, 6, 5, 4, 3, 2, 1, 0] \<and>
   prec_groups =
     [(16, [''POSTFIX'']), (15, [''PREFIX'']), (14, [''TYPE_RHS'']), (13, [''AS'']),
      (12, [''MULTIPLICATIVE'']), (11, [''ADDITIVE'']), (10, [''RANGE'']), (9, [''INFIX'']),
      (8, [''ELVIS'']), (7, [''CHECK'']), (6, [''COMPARISON'']), (5, [''EQUALITY'']),
      (4, [''CONJUNCTION'']), (3, [''DISJUNCTION'']), (2, [''SPREAD'', ''SIMPLE_USER_TYPE'']),
      (1, [''VAR_DECL'', ''ASSIGNMENT'', ''BLOCK'']),
      (0, [''LAMBDA_LITERAL'', ''RETURN_OR_THROW'', ''COMMENT''])]"
  by (simp add: prec_levels_eval prec_groups_eval)

section \<open>Integer literals with leading zeros (claim C9)\<close>

text \<open>
  Claim C9: the integer-literal token accepts a decimal digit string with leading
  zeros as one token.  The leading non-zero digit is optional and the digit group
  admits every digit, so every non-empty string of decimal digits \<open>s\<close>, such as
  \<open>08\<close> or \<open>007\<close>, is one \<open>integer_literal\<close> token: the derivation with the single
  token \<open>s\<close> follows the grammar, its tree is the single leaf \<open>integer_literal\<close>
  with the text \<open>s\<close>, and the longest prefix of \<open>s\<close> that the token matches is all
  of \<open>s\<close>, so the string is neither rejected nor split.
\<close>

theorem C9_integer_literal_leading_zeros:
  assumes "s \<noteq> []" "set s \<subseteq> set digit"
  shows "valid (Sym ''integer_literal'') (DSym ''integer_literal'' (DTok [] s)) \<and>
         tree (Sym ''integer_literal'') (DSym ''integer_literal'' (DTok [] s))
           = [Node ''integer_literal'' True s []] \<and>
         yield (DSym ''integer_literal'' (DTok [] s)) = s \<and>
         longest (rx integer_literal_rule) s = Some (length s)"
proof -
  have m: "rmatch (rx integer_literal_rule) s" by (rule digits_match_integer_literal[OF assms])
  have v: "valid integer_literal_rule (DTok [] s)"
    using m by (simp add: integer_literal_rule_def valid_eval)
  show ?thesis
    using v longest_full[OF m] terminal_integer_literal
    by (simp add: rules_integer_literal valid_eval tree_eval)
qed

theorem C9_integer_literal_leading_zeros_witness:
  "''08'' \<noteq> [] \<and> set ''08'' \<subseteq> set digit \<and>
   valid (Sym ''integer_literal'') (DSym ''integer_literal'' (DTok [] ''08'')) \<and>
   tree (Sym ''integer_literal'') (DSym ''integer_literal'' (DTok [] ''08''))
     = [Node ''integer_literal'' True ''08'' []] \<and>
   longest (rx integer_literal_rule) ''08'' = Some 2 \<and>
   ''007'' \<noteq> [] \<and> set ''007'' \<subseteq> set digit \<and>
   valid (Sym ''integer_literal'') (DSym ''integer_literal'' (DTok [] ''007'')) \<and>
   tree (Sym ''integer_literal'') (DSym ''integer_literal'' (DTok [] ''007''))
     = [Node ''integer_literal'' True ''007'' []] \<and>
   longest (rx integer_literal_rule) ''007'' = Some 3"
  using C9_integer_literal_leading_zeros[of "''08''"] C9_integer_literal_leading_zeros[of "''007''"]
  by (simp add: digit_def)

section \<open>Signs and numeric literals (claim C6)\<close>

text \<open>
  Claim C6: a leading sign is never part of a numeric literal token.  No text that
  one of the numeric literal tokens (real, integer, hexadecimal, binary) matches
  starts with \<open>+\<close> or \<open>-\<close>.  The inputs \<open>4.3f\<close>, \<open>+53.9e-3F\<close> and \<open>-23.434\<close>
  have derivations that follow the grammar and the longest-match rule, in which
  \<open>4.3f\<close> is a \<open>real_literal\<close> leaf and the sign of the other two is the operator
  of a \<open>prefix_expression\<close> that wraps the unsigned \<open>real_literal\<close> leaf.
\<close>

theorem C6_sign_outside_literal:
  "(\<forall>r s. r \<in> {real_literal_rule, integer_literal_rule, hex_literal_rule, bin_literal_rule} \<longrightarrow>
      rmatch (rx r) s \<longrightarrow> s \<noteq> [] \<and> hd s \<noteq> CHR ''+'' \<and> hd s \<noteq> CHR ''-'') \<and>
   valid (Sym ''expression_'') real_plain \<and> yield real_plain = ''4.3f'' \<and>
   munch (lexemes (Sym ''expression_'') real_plain) \<and>
   tree (Sym ''expression_'') real_plain =
     [Node ''expression_'' True ''4.3f''
        [Node ''primary_expression_'' True ''4.3f'' [Node ''real_literal'' True ''4.3f'' []]]] \<and>
   valid (Sym ''expression_'') real_plus \<and> yield real_plus = ''+53.9e-3F'' \<and>
   munch (lexemes (Sym ''expression_'') real_plus) \<and>
   tree (Sym ''expression_'') real_plus =
     [Node ''expression_'' True ''+53.9e-3F''
        [Node ''prefix_expression'' True ''+53.9e-3F''
           [Node ''+'' False ''+'' [],
            Node ''expression_'' True ''53.9e-3F''
              [Node ''primary_expression_'' True ''53.9e-3F''
                 [Node ''real_literal'' True ''53.9e-3F'' []]]]]] \<and>
   valid (Sym ''expression_'') real_minus \<and> yield real_minus = ''-23.434'' \<and>
   munch (lexemes (Sym ''expression_'') real_minus) \<and>
   tree (Sym ''expression_'') real_minus =
     [Node ''expression_'' True ''-23.434''
        [Node ''prefix_expression'' True ''-23.434''
           [Node ''-'' False ''-'' [],
            Node ''expression_'' True ''23.434''
              [Node ''primary_expression_'' True ''23.434''
                 [Node ''real_literal'' True ''23.434'' []]]]]]"
  using numeric_literal_unsigned
  by (simp only: real_plain_valid real_plain_yield real_plain_munch real_plain_tree
      real_plus_valid real_plus_yield real_plus_munch real_plus_tree
      real_minus_valid real_minus_yield real_minus_munch real_minus_tree simp_thms) blast

theorem C6_sign_outside_literal_witness:
  "real_literal_rule \<in> {real_literal_rule, integer_literal_rule, hex_literal_rule, bin_literal_rule} \<and>
   rmatch (rx real_literal_rule) ''23.434'' \<and>
   ''23.434'' \<noteq> [] \<and> hd ''23.434'' \<noteq> CHR ''+'' \<and> hd ''23.434'' \<noteq> CHR ''-''"
proof -
  have m: "rmatch (rx real_literal_rule) ''23.434''"
    by (simp add: real_literal_rule_def tok_defs)
  from C6_sign_outside_literal m show ?thesis by simp
qed

section \<open>Soft keywords (claim C7)\<close>


section \<open>Leaves and source text (claim C8)\<close>




section \<open>Generic arguments and comparison (claim C1)\<close>




section \<open>Associativity (claim C2)\<close>



section \<open>Placeholder fields (claim C4)\<close>

text \<open>
  Claim C4, as stated: every optional repeated-list construct, the statement list
  among them, always gives its field.  The lambda literal \<open>{ }\<close> parses; its
  statement list is optional and absent, and its tree binds no field at all: the
  rule \<open>lambda_literal\<close> writes its statements with \<open>optional\<close>, not with
  \<open>optional_with_placeholder\<close>.
\<close>

theorem C4_lambda_statements_counterexample:
  "valid (Sym ''expression_'') lambda_empty \<and> yield lambda_empty = ''{ }'' \<and>
   fields_of (tree (Sym ''expression_'') lambda_empty) = [] \<and>
   ''statements'' \<in> set (syms lambda_literal_rule) \<and> placeholders lambda_literal_rule = []"
  by (simp add: lambda_empty_valid lambda_empty_yield lambda_empty_tree fields_of_def
      lambda_literal_rule_def optional_def)

text \<open>
  Claim C4, amended: for every successful parse and every construct that the
  grammar writes with \<open>optional_with_placeholder\<close>, the field is always present on
  the resulting node, bound to the parsed elements or, when the construct is
  absent, to no node (the empty marker).  These constructs are the import list and
  the statement list of a program, the implements list of a class, the class member
  list, the parameter list of a function, the optional type of a function and of a
  variable, the assignment value of a property, the enum member list, the statement
  list of an enclosed body, the argument list, the else-if list and the else clause,
  the catch list and the finally clause, and the return value.  In particular every
  tree of a program binds \<open>import_list\<close> and \<open>statement_list\<close>.
\<close>

theorem C4_placeholder_fields:
  "(\<forall>f r d. valid (optional_with_placeholder f r) d \<longrightarrow>
      (\<exists>kids. tree (optional_with_placeholder f r) d = [FieldOf f kids])) \<and>
   (\<forall>f r. valid (optional_with_placeholder f r) (DChoice 1 DBlank) \<and>
      tree (optional_with_placeholder f r) (DChoice 1 DBlank) = [FieldOf f []]) \<and>
   (\<forall>d. valid (Sym ''program'') d \<longrightarrow>
      (\<exists>t pre k1 k2. tree (Sym ''program'') d =
         [Node ''program'' True t
            (pre @ [FieldOf ''import_list'' k1, FieldOf ''statement_list'' k2])])) \<and>
   concat (map (\<lambda>(n, r). map (Pair n) (placeholders r)) grammar) =
     [(''program'', ''import_list''),
      (''program'', ''statement_list''),
      (''class_declaration'', ''implements_list_optional''),
      (''class_declaration'', ''implements_list_optional''),
      (''class_body'', ''class_member_list''),
      (''function_value_parameters_'', ''parameter_list''),
      (''function'', ''type_optional''),
      (''single_variable_declaration'', ''type_optional''),
      (''property_assignment'', ''assignment_value_list_optional''),
      (''enum_class_body'', ''enum_member_list''),
      (''enclosed_body'', ''statement_list''),
      (''value_arguments'', ''argument_list''),
      (''if'', ''else_if_clause_list''),
      (''if'', ''else_clause_optional''),
      (''try'', ''catch_list''),
      (''try'', ''finally_clause_optional''),
      (''return'', ''return_value_optional'')]"
  using placeholder_field placeholder_blank program_fields
  by (simp only: all_placeholders simp_thms) blast

theorem C4_placeholder_fields_witness:
  "valid (Sym ''program'') two_bools \<and>
   (\<exists>t pre k1 k2. tree (Sym ''program'') two_bools =
      [Node ''program'' True t
         (pre @ [FieldOf ''import_list'' k1, FieldOf ''statement_list'' k2])]) \<and>
   ''import_list'' \<in> set (fields_of (tree (Sym ''program'') two_bools))"
proof -
  from C4_placeholder_fields two_bools_valid
  have "\<exists>t pre k1 k2. tree (Sym ''program'') two_bools =
      [Node ''program'' True t
         (pre @ [FieldOf ''import_list'' k1, FieldOf ''statement_list'' k2])]"
    by blast
  then show ?thesis
    by (auto simp: two_bools_valid fields_of_def)
qed

section \<open>String interpolation (claim C5)\<close>



section \<open>A dollar sign inside a string (claim C10)\<close>




end
